theory Spec2Isabelle
  imports Complex_Main "HOL-Library.Sublist"
begin

section \<open>Python strings and numbers\<close>

text \<open>
  A Python \<open>str\<close> is modelled as its UTF-8 encoding, a \<open>string\<close> of bytes. ASCII
  characters are single bytes below 128; every other character is a run of bytes that
  are all at least 128.
\<close>

definition NL :: string where
  "NL = [CHR 0x0A]"

text \<open>The glyphs the scripts print, as UTF-8.\<close>

definition CHECK :: string where
  "CHECK = [CHR 0xE2, CHR 0x9C, CHR 0x93]"

definition CROSS :: string where
  "CROSS = [CHR 0xE2, CHR 0x9D, CHR 0x8C]"

definition WARNING :: string where
  "WARNING = [CHR 0xE2, CHR 0x9A, CHR 0xA0, CHR 0xEF, CHR 0xB8, CHR 0x8F]"

definition BULLET :: string where
  "BULLET = [CHR 0xE2, CHR 0x80, CHR 0xA2]"

definition CHART :: string where
  "CHART = [CHR 0xF0, CHR 0x9F, CHR 0x93, CHR 0x8A]"

definition ARROW :: string where
  "ARROW = [CHR 0xE2, CHR 0x86, CHR 0x92]"

definition REFRESH :: string where
  "REFRESH = [CHR 0xF0, CHR 0x9F, CHR 0x94, CHR 0x84]"

definition RULE60 :: string where
  \<comment> \<open>\<open>"=" * 60\<close>\<close>
  "RULE60 = replicate 60 (CHR ''='')"

text \<open>\<open>s.startswith(p)\<close>\<close>

definition startswith :: "string \<Rightarrow> string \<Rightarrow> bool" where
  "startswith s p = (take (length p) s = p)"

text \<open>\<open>sub in s\<close>\<close>

fun contains :: "string \<Rightarrow> string \<Rightarrow> bool" where
  "contains sub [] = (sub = [])"
| "contains sub (c # cs) = (startswith (c # cs) sub \<or> contains sub cs)"

text \<open>\<open>s.split('.')[0]\<close>: the part of \<open>s\<close> before its first dot, all of \<open>s\<close> if it has none.\<close>

definition split_dot_first :: "string \<Rightarrow> string" where
  "split_dot_first s = takeWhile (\<lambda>c. c \<noteq> CHR ''.'') s"

text \<open>\<open>os.path.basename(p)\<close> of \<open>posixpath\<close>: what follows the last slash.\<close>

definition basename :: "string \<Rightarrow> string" where
  "basename p = rev (takeWhile (\<lambda>c. c \<noteq> CHR ''/'') (rev p))"

text \<open>
  \<open>s.upper()\<close>. On an ASCII letter \<open>a\<close>..\<open>z\<close> it subtracts 32, that is, it clears
  bit 5; other ASCII characters stay. The upper-casing of the characters beyond ASCII is
  Python's Unicode table, which is not part of the scripts: it is the parameter \<open>U\<close>,
  applied to each maximal run of non-ASCII bytes.
\<close>

definition is_ascii :: "char \<Rightarrow> bool" where
  "is_ascii c = ((of_char c :: nat) < 128)"

definition ascii_upper :: "char \<Rightarrow> char" where
  "ascii_upper c =
     (if 97 \<le> (of_char c :: nat) \<and> (of_char c :: nat) \<le> 122
      then (case c of Char b0 b1 b2 b3 b4 b5 b6 b7 \<Rightarrow> Char b0 b1 b2 b3 b4 False b6 b7)
      else c)"

function upper :: "(string \<Rightarrow> string) \<Rightarrow> string \<Rightarrow> string" where
  "upper U [] = []"
| "upper U (c # cs) =
     (if is_ascii c then ascii_upper c # upper U cs
      else U (c # takeWhile (\<lambda>d. \<not> is_ascii d) cs)
           @ upper U (dropWhile (\<lambda>d. \<not> is_ascii d) cs))"
  by pat_completeness auto
termination
  by (relation "measure (\<lambda>(U, s). length s)")
     (auto simp: less_Suc_eq_le length_dropWhile_le)

text \<open>\<open>str(n)\<close> for a non-negative integer, and \<open>str(b)\<close> for a bool.\<close>

definition digit :: "nat \<Rightarrow> char" where
  "digit d = ''0123456789'' ! (d mod 10)"

function str_nat :: "nat \<Rightarrow> string" where
  "str_nat n = (if n < 10 then [digit n] else str_nat (n div 10) @ [digit (n mod 10)])"
  by pat_completeness auto
termination
  by (relation "measure (\<lambda>n. n)") auto

declare str_nat.simps [simp del]

definition str_bool :: "bool \<Rightarrow> string" where
  "str_bool b = (if b then ''True'' else ''False'')"

section \<open>The host application's data\<close>

text \<open>
  What the scripts read of \<open>bpy.data\<close>: data blocks with a name and the library they are
  linked from (\<open>None\<close> for local data), collections and objects with their own two
  visibility flags, objects with a type and a stack of modifiers. \<open>id_addr\<close> is
  \<open>id(obj)\<close> and \<open>location_str\<close> the text Python prints for \<open>obj.location[:]\<close>.
\<close>

record lib =
  filepath :: string
  repr :: string

record idblock =
  name :: string
  library :: "lib option"

record hideable = idblock +
  hide_viewport :: bool
  hide_render :: bool

record collection = hideable +
  coll_objects :: "string list"

datatype modifier = Modifier (mod_type: string)

record obj = hideable +
  type :: string
  modifiers :: "modifier list"
  id_addr :: nat
  location_str :: string

section \<open>Exceptions, events and the script monad\<close>

text \<open>
  \<open>Exception s\<close> is any instance of a subclass of \<open>Exception\<close>, with \<open>s\<close> its
  \<open>str\<close>. \<open>sys.exit(n)\<close> raises \<open>SystemExit n\<close>.
\<close>

datatype exc = Exception string | KeyboardInterrupt | SystemExit nat

text \<open>
  What a call into the host or the operating system may raise: an error, which is an
  instance of a subclass of \<open>Exception\<close> (\<open>RuntimeError\<close>, \<open>OSError\<close>), or the
  \<open>KeyboardInterrupt\<close> of a user who stops the run.
\<close>

datatype fault = Error string | Interrupt

fun raised :: "fault \<Rightarrow> exc" where
  "raised (Error s) = Exception s"
| "raised Interrupt = KeyboardInterrupt"

datatype pyval = B bool | S string

text \<open>
  The observable steps of a run, in order: what is printed, and the calls that change
  the host's state or may fail. The keyword arguments of the export call are kept as
  written, in order.
\<close>

datatype event =
    Print string
  | PrintExc
  | ReadHomefile
  | OpenMainfile string
  | SetCollectionHideViewport string
  | SetCollectionHideRender string
  | SetObjectHideViewport string
  | SetObjectHideRender string
  | RemoveObject string
  | MakeDirs string
  | ExportGltf "(string \<times> pyval) list"
  | GetSize string

text \<open>
  A computation yields the events it performed and either the exception that ended it or
  its value.
\<close>

type_synonym 'a io = "event list \<times> (exc + 'a)"

definition ret :: "'a \<Rightarrow> 'a io" where
  "ret x = ([], Inr x)"

definition raise :: "exc \<Rightarrow> 'a io" where
  "raise e = ([], Inl e)"

definition bind :: "'a io \<Rightarrow> ('a \<Rightarrow> 'b io) \<Rightarrow> 'b io" where
  "bind m f =
     (case m of
        (t, Inl e) \<Rightarrow> (t, Inl e)
      | (t, Inr x) \<Rightarrow> (case f x of (t', r) \<Rightarrow> (t @ t', r)))"

fun block :: "unit io list \<Rightarrow> unit io" where
  "block [] = ret ()"
| "block (s # ss) = bind s (\<lambda>_. block ss)"

definition tell :: "event list \<Rightarrow> unit io" where
  "tell evs = (evs, Inr ())"

definition print :: "string \<Rightarrow> unit io" where
  "print s = tell [Print s]"

definition prints :: "string list \<Rightarrow> unit io" where
  "prints ss = tell (map Print ss)"

definition call :: "event \<Rightarrow> fault option \<Rightarrow> unit io" where
  "call ev r = ([ev], case r of None \<Rightarrow> Inr () | Some f \<Rightarrow> Inl (raised f))"

definition call_val :: "event \<Rightarrow> fault + 'a \<Rightarrow> 'a io" where
  "call_val ev r = ([ev], case r of Inl f \<Rightarrow> Inl (raised f) | Inr x \<Rightarrow> Inr x)"

definition sys_exit :: "nat \<Rightarrow> 'a io" where
  "sys_exit n = raise (SystemExit n)"

definition if_then :: "bool \<Rightarrow> unit io \<Rightarrow> unit io" where
  "if_then b m = (if b then m else ret ())"

text \<open>\<open>try: m  except Exception as e: handler e\<close>\<close>

definition try_except_Exception :: "'a io \<Rightarrow> (string \<Rightarrow> 'a io) \<Rightarrow> 'a io" where
  "try_except_Exception m handler =
     (case m of
        (t, Inl (Exception s)) \<Rightarrow> (case handler s of (t', r) \<Rightarrow> (t @ t', r))
      | _ \<Rightarrow> m)"

text \<open>\<open>try: m  except KeyboardInterrupt: h1  except Exception as e: h2 e\<close>\<close>

definition try_except_KeyboardInterrupt_Exception ::
  "'a io \<Rightarrow> 'a io \<Rightarrow> (string \<Rightarrow> 'a io) \<Rightarrow> 'a io" where
  "try_except_KeyboardInterrupt_Exception m h1 h2 =
     (case m of
        (t, Inl KeyboardInterrupt) \<Rightarrow> (case h1 of (t', r) \<Rightarrow> (t @ t', r))
      | (t, Inl (Exception s)) \<Rightarrow> (case h2 s of (t', r) \<Rightarrow> (t @ t', r))
      | _ \<Rightarrow> m)"

text \<open>
  How the process ends: falling off the end of the script is status 0, \<open>SystemExit n\<close>
  is status \<open>n\<close>, and any other exception leaves the script uncaught.
\<close>

datatype outcome = Exit nat | Uncaught exc

definition finish :: "unit io \<Rightarrow> event list \<times> outcome" where
  "finish m =
     (case m of
        (t, Inr _) \<Rightarrow> (t, Exit 0)
      | (t, Inl (SystemExit n)) \<Rightarrow> (t, Exit n)
      | (t, Inl e) \<Rightarrow> (t, Uncaught e))"

section \<open>File sizes in megabytes\<close>

text \<open>\<open>n.bit_length()\<close>\<close>

function bit_length :: "nat \<Rightarrow> nat" where
  "bit_length n = (if n = 0 then 0 else Suc (bit_length (n div 2)))"
  by pat_completeness auto
termination
  by (relation "measure (\<lambda>n. n)") auto

declare bit_length.simps [simp del]

text \<open>
  The nearest integer with at most 53 significant bits, ties to the even one: the
  rounding of an IEEE double's significand.
\<close>

definition round53 :: "nat \<Rightarrow> nat" where
  "round53 n =
     (if n < 2 ^ 53 then n
      else let k = bit_length n - 53;
               q = n div 2 ^ k;
               r = n mod 2 ^ k
           in (if 2 ^ (k - 1) < r \<or> (r = 2 ^ (k - 1) \<and> odd q) then q + 1 else q) * 2 ^ k)"

text \<open>
  \<open>n / (1024 * 1024)\<close> for an \<open>int\<close> \<open>n \<ge> 0\<close>: Python's true division gives the double
  nearest to the quotient. The divisor is a power of two, so that double is \<open>n\<close> rounded
  to 53 significant bits, over \<open>2 ^ 20\<close>; a quotient of \<open>2 ^ 1024\<close> or more is no double
  and raises \<open>OverflowError\<close>. The double is kept as the rational number it is.
\<close>

definition truediv_MB :: "nat \<Rightarrow> exc + rat" where
  "truediv_MB n =
     (if 2 ^ 1044 \<le> round53 n
      then Inl (Exception ''integer division result too large for a float'')
      else Inr (of_nat (round53 n) / (1024 * 1024)))"

text \<open>
  \<open>f"{x:.2f}"\<close> for a double \<open>x \<ge> 0\<close>: the decimal with two places nearest to the exact
  value of \<open>x\<close>, ties to the even one.
\<close>

definition round_half_even :: "rat \<Rightarrow> nat" where
  "round_half_even x =
     (let f = floor x; d = x - of_int f
      in nat (if d < 1 / 2 then f else if 1 / 2 < d then f + 1 else if even f then f else f + 1))"

definition format_2f :: "rat \<Rightarrow> string" where
  "format_2f x =
     (let h = round_half_even (x * 100)
      in str_nat (h div 100) @ ''.'' @ [digit (h mod 100 div 10), digit (h mod 10)])"

section \<open>Paths\<close>

text \<open>\<open>os.path.join(a, b)\<close> and \<open>os.path.dirname(p)\<close> of \<open>posixpath\<close>.\<close>

definition path_join :: "string \<Rightarrow> string \<Rightarrow> string" where
  "path_join a b =
     (if startswith b ''/'' then b
      else if a = [] \<or> last a = CHR ''/'' then a @ b
      else a @ ''/'' @ b)"

definition dirname :: "string \<Rightarrow> string" where
  "dirname p =
     (let head = rev (dropWhile (\<lambda>c. c \<noteq> CHR ''/'') (rev p))
      in if head \<noteq> [] \<and> \<not> list_all (\<lambda>c. c = CHR ''/'') head
         then rev (dropWhile (\<lambda>c. c = CHR ''/'') (rev head))
         else head)"

definition PROJECT_DIR :: string where
  "PROJECT_DIR = ''/Users/amaro/Documents/dev/based.guide_realtime''"

definition ENV_FILE :: string where
  "ENV_FILE = ''/Users/amaro/Library/CloudStorage/GoogleDrive-amaro@amarokoberle.com/My Drive/based.guide/3D/assets/environments/ApeEscapeOffice/ENV_ApeEscapeOffice_MASTER.blend''"

definition ENV_OUTPUT_GLB :: string where
  "ENV_OUTPUT_GLB = path_join (path_join PROJECT_DIR ''public'') ''ENV_ApeEscapeOffice.glb''"

definition CHAR_FILE :: string where
  "CHAR_FILE = ''/Users/amaro/Library/CloudStorage/GoogleDrive-amaro@amarokoberle.com/My Drive/based.guide/3D/assets/characters/MrProBonobo/CHAR_MrProBonobo_MASTER.blend''"

definition CHAR_OUTPUT_GLB :: string where
  "CHAR_OUTPUT_GLB = path_join (path_join PROJECT_DIR ''public'') ''CHAR_MrProBonobo.glb''"

definition REALTIME_DIR :: string where
  "REALTIME_DIR = ''/Users/amaro/Library/CloudStorage/GoogleDrive-amaro@amarokoberle.com/My Drive/based.guide/3D/realtime''"

definition RT_SCENE_FILE :: string where
  "RT_SCENE_FILE = path_join REALTIME_DIR ''RT_SCENE_ApeEscape_MASTER.blend''"

definition RT_OUTPUT_GLB :: string where
  "RT_OUTPUT_GLB = path_join PROJECT_DIR ''public/RT_SCENE_ApeEscape.glb''"

section \<open>The host\<close>

text \<open>
  What the host application and the operating system answer during one run: whether a
  path exists, what each call that can fail does (\<open>None\<close>: it returns), the contents of
  the file once it is loaded, and the size of the written file. Printing, reading an
  attribute and setting a visibility flag do not fail. \<open>unicode_upper\<close> is the upper-casing
  of non-ASCII text.
\<close>

record host =
  unicode_upper :: "string \<Rightarrow> string"
  path_exists :: "string \<Rightarrow> bool"
  read_homefile_result :: "fault option"
  open_mainfile_result :: "fault option"
  data_objects :: "obj list"
  data_collections :: "collection list"
  data_meshes :: "idblock list"
  data_cameras :: "idblock list"
  data_lights :: "idblock list"
  data_armatures :: "idblock list"
  data_actions :: "string list"
  scene_objects :: "string list"
  makedirs_result :: "fault option"
  export_result :: "fault option"
  getsize_result :: "fault + nat"

section \<open>The loops over collections and objects\<close>

text \<open>
  \<open>export_env.py\<close>, lines 44 to 49: hide every collection whose upper-cased name
  contains \<open>WORKING\<close>. The result is the events, the collections afterwards and
  \<open>hidden_collections\<close>.
\<close>

fun hide_working_env ::
  "(string \<Rightarrow> string) \<Rightarrow> collection list \<Rightarrow> event list \<times> collection list \<times> string list" where
  "hide_working_env U [] = ([], [], [])"
| "hide_working_env U (c # cs) =
     (case hide_working_env U cs of (evs, cs', hidden_collections) \<Rightarrow>
        if contains ''WORKING'' (upper U (name c))
        then ([SetCollectionHideViewport (name c), SetCollectionHideRender (name c),
               Print (''   '' @ BULLET @ '' Hiding: '' @ name c)] @ evs,
              c\<lparr>hide_viewport := True, hide_render := True\<rparr> # cs',
              name c # hidden_collections)
        else (evs, c # cs', hidden_collections))"

text \<open>
  \<open>export_rt_scene.py\<close>, lines 38 to 43: hide every collection whose name contains
  \<open>Working\<close>. The result is the events, the collections afterwards and \<open>hidden_count\<close>.
\<close>

fun hide_working_rt :: "collection list \<Rightarrow> event list \<times> collection list \<times> nat" where
  "hide_working_rt [] = ([], [], 0)"
| "hide_working_rt (c # cs) =
     (case hide_working_rt cs of (evs, cs', hidden_count) \<Rightarrow>
        if contains ''Working'' (name c)
        then ([SetCollectionHideViewport (name c), SetCollectionHideRender (name c),
               Print (''      - Hidden: '' @ name c)] @ evs,
              c\<lparr>hide_viewport := True, hide_render := True\<rparr> # cs',
              Suc hidden_count)
        else (evs, c # cs', hidden_count))"

text \<open>
  \<open>export_rt_scene.py\<close>, lines 88 to 95. The loop runs over a copy of
  \<open>bpy.data.objects\<close>; \<open>kept\<close> holds the objects already visited and not removed, so
  that \<open>kept @ obj # rest\<close> is \<open>bpy.data.objects\<close> as it is when \<open>obj\<close> is visited.
  The result is the events, \<open>bpy.data.objects\<close> afterwards and \<open>duplicates_removed\<close>.
\<close>

fun remove_orphaned ::
  "string list \<Rightarrow> obj list \<Rightarrow> obj list \<Rightarrow> event list \<times> obj list \<times> nat" where
  "remove_orphaned scene_object_names kept [] = ([], kept, 0)"
| "remove_orphaned scene_object_names kept (obj # rest) =
     (if name obj \<notin> set scene_object_names then
        (let base_name = split_dot_first (name obj) in
         if list_ex (\<lambda>other. startswith (name other) base_name \<and> name other \<in> set scene_object_names)
              (kept @ obj # rest)
         then (case remove_orphaned scene_object_names kept rest of
                 (evs, objs', duplicates_removed) \<Rightarrow>
                   ([Print (''      '' @ BULLET @ '' Removing orphaned duplicate: '' @ name obj),
                     RemoveObject (name obj)] @ evs,
                    objs', Suc duplicates_removed))
         else remove_orphaned scene_object_names (kept @ [obj]) rest)
      else remove_orphaned scene_object_names (kept @ [obj]) rest)"

text \<open>
  \<open>export_rt_scene.py\<close>, lines 150 to 159: hide every library-linked object that has a
  local object of the same name. The result is the events, the objects afterwards and
  \<open>hidden_for_export\<close>.
\<close>

fun hide_linked_duplicates ::
  "string list \<Rightarrow> obj list \<Rightarrow> event list \<times> obj list \<times> string list" where
  "hide_linked_duplicates override_objects [] = ([], [], [])"
| "hide_linked_duplicates override_objects (obj # rest) =
     (case hide_linked_duplicates override_objects rest of (evs, objs', hidden_for_export) \<Rightarrow>
        if library obj \<noteq> None \<and> name obj \<in> set override_objects
        then ([SetObjectHideViewport (name obj), SetObjectHideRender (name obj),
               Print (''   '' @ BULLET @ '' Hiding linked duplicate (override exists): '' @ name obj)]
                @ evs,
              obj\<lparr>hide_viewport := True, hide_render := True\<rparr> # objs',
              name obj # hidden_for_export)
        else (evs, obj # objs', hidden_for_export))"

text \<open>The condition under which the loop of \<open>remove_orphaned\<close> removes an object.\<close>

definition orphaned_duplicate :: "string list \<Rightarrow> obj list \<Rightarrow> obj \<Rightarrow> bool" where
  "orphaned_duplicate scene_object_names objs obj =
     (name obj \<notin> set scene_object_names \<and>
      list_ex (\<lambda>other. startswith (name other) (split_dot_first (name obj)) \<and>
                   name other \<in> set scene_object_names) objs)"

text \<open>
  \<open>obj.type == 'MESH' and obj.modifiers and any(m.type == 'ARMATURE' for m in obj.modifiers)\<close>
\<close>

definition is_skinned_mesh :: "obj \<Rightarrow> bool" where
  "is_skinned_mesh obj =
     (type obj = ''MESH'' \<and> modifiers obj \<noteq> [] \<and>
      list_ex (\<lambda>m. mod_type m = ''ARMATURE'') (modifiers obj))"

section \<open>export\_env.py\<close>

text \<open>
  The function of each script is cut at its numbered steps into phases that run one after
  the other; a phase that raises ends the function. The local variables of the function
  are written as functions of the host. Hiding a collection sets the two flags of the
  collection; the flags of an object are attributes of the object, which that loop does
  not write.
\<close>

definition env_gltf_args :: "(string \<times> pyval) list" where
  "env_gltf_args =
     [(''filepath'', S ENV_OUTPUT_GLB),
      (''export_format'', S ''GLB''),
      (''use_selection'', B False),
      (''use_visible'', B True),
      (''export_cameras'', B False),
      (''export_lights'', B True),
      (''export_yup'', B True),
      (''export_apply'', B True),
      (''export_texcoords'', B True),
      (''export_normals'', B True),
      (''export_tangents'', B True),
      (''export_animations'', B False),
      (''export_skins'', B False),
      (''export_draco_mesh_compression_enable'', B False)]"

text \<open>Lines 11 to 22.\<close>

definition env_load :: "host \<Rightarrow> unit io" where
  "env_load h = block [
     prints [RULE60, ''Environment Export Script'', RULE60],
     print (NL @ ''1. Loading environment file: '' @ ENV_FILE),
     try_except_Exception
       (block [call (OpenMainfile ENV_FILE) (open_mainfile_result h),
               print (''   '' @ CHECK @ '' File loaded'')])
       (\<lambda>e. block [print (CROSS @ '' Error loading file: '' @ e), sys_exit 1])]"

text \<open>Lines 24 to 38.\<close>

definition env_all_objects :: "host \<Rightarrow> obj list" where
  "env_all_objects h = data_objects h"

definition env_meshes :: "host \<Rightarrow> obj list" where
  "env_meshes h = filter (\<lambda>obj. type obj = ''MESH'') (env_all_objects h)"

definition env_lights :: "host \<Rightarrow> obj list" where
  "env_lights h = filter (\<lambda>obj. type obj = ''LIGHT'') (env_all_objects h)"

definition env_cameras :: "host \<Rightarrow> obj list" where
  "env_cameras h = filter (\<lambda>obj. type obj = ''CAMERA'') (env_all_objects h)"

definition env_verify :: "host \<Rightarrow> unit io" where
  "env_verify h = block [
     print (NL @ ''2. Verifying environment contents...''),
     prints [''   - Meshes: '' @ str_nat (length (env_meshes h)),
             ''   - Lights: '' @ str_nat (length (env_lights h)),
             ''   - Cameras: '' @ str_nat (length (env_cameras h))],
     if_then (length (env_meshes h) = 0)
       (prints [NL @ ''   '' @ WARNING @ '' WARNING: No meshes found!'',
                ''   This might be normal if environment is in collections.''])]"

text \<open>Lines 40 to 58.\<close>

definition env_export_objects :: "host \<Rightarrow> obj list" where
  "env_export_objects h =
     filter (\<lambda>obj. \<not> hide_viewport obj \<and> \<not> hide_render obj) (env_all_objects h)"

definition env_export_meshes :: "host \<Rightarrow> obj list" where
  "env_export_meshes h = filter (\<lambda>obj. type obj = ''MESH'') (env_export_objects h)"

definition env_prepare :: "host \<Rightarrow> unit io" where
  "env_prepare h =
     (case hide_working_env (unicode_upper h) (data_collections h) of
        (evs, collections', hidden_collections) \<Rightarrow> block [
          print (NL @ ''3. Preparing collections for export...''),
          tell evs,
          if_then (hidden_collections \<noteq> [])
            (print (''   '' @ CHECK @ '' Hidden '' @ str_nat (length hidden_collections)
                    @ '' working collection(s)'')),
          print (''   Will export '' @ str_nat (length (env_export_objects h)) @ '' objects (''
                 @ str_nat (length (env_export_meshes h)) @ '' meshes)'')])"

text \<open>Lines 60 to 83.\<close>

definition env_export :: "host \<Rightarrow> unit io" where
  "env_export h = block [
     print (NL @ ''4. Exporting to: '' @ ENV_OUTPUT_GLB),
     try_except_Exception
       (block [call (ExportGltf env_gltf_args) (export_result h),
               print (''   '' @ CHECK @ '' Export successful!'')])
       (\<lambda>e. block [prints [NL @ CROSS @ '' Export failed with error:'', ''   '' @ e],
                   sys_exit 1])]"

text \<open>Lines 85 to 96.\<close>

definition env_summary :: "host \<Rightarrow> unit io" where
  "env_summary h =
     bind (call_val (GetSize ENV_OUTPUT_GLB) (getsize_result h)) (\<lambda>size.
     bind ([], truediv_MB size) (\<lambda>file_size.
       prints [NL @ RULE60,
               CHECK @ '' Environment Export Complete!'',
               RULE60,
               NL @ ''GLB file: '' @ ENV_OUTPUT_GLB,
               ''File size: '' @ format_2f file_size @ '' MB'',
               NL @ CHART @ '' Exported:'',
               ''   - '' @ str_nat (length (env_export_meshes h)) @ '' mesh(es)'',
               ''   - '' @ str_nat (length (env_lights h)) @ '' light(s)'',
               RULE60 @ NL]))"

definition export_environment :: "host \<Rightarrow> unit io" where
  "export_environment h =
     block [env_load h, env_verify h, env_prepare h, env_export h, env_summary h]"

text \<open>The script has no handler around \<open>export_environment()\<close>.\<close>

definition main_export_env :: "host \<Rightarrow> event list \<times> outcome" where
  "main_export_env h = finish (export_environment h)"

section \<open>export\_char.py\<close>

definition char_gltf_args :: "(string \<times> pyval) list" where
  "char_gltf_args =
     [(''filepath'', S CHAR_OUTPUT_GLB),
      (''export_format'', S ''GLB''),
      (''use_selection'', B False),
      (''use_visible'', B True),
      (''use_active_collection'', B False),
      (''export_cameras'', B False),
      (''export_lights'', B False),
      (''export_yup'', B True),
      (''export_apply'', B True),
      (''export_texcoords'', B True),
      (''export_normals'', B True),
      (''export_tangents'', B True),
      (''export_animations'', B True),
      (''export_anim_single_armature'', B True),
      (''export_nla_strips'', B True),
      (''export_def_bones'', B True),
      (''export_optimize_animation_size'', B True),
      (''export_skins'', B True),
      (''export_all_influences'', B False),
      (''export_draco_mesh_compression_enable'', B False)]"

text \<open>Lines 17 to 24.\<close>

definition char_load :: "host \<Rightarrow> unit io" where
  "char_load h = block [
     prints [NL @ RULE60, ''Character Export Script'', RULE60],
     print (NL @ ''1. Loading character file: '' @ CHAR_FILE),
     call (OpenMainfile CHAR_FILE) (open_mainfile_result h),
     print (''   '' @ CHECK @ '' File loaded'')]"

text \<open>Lines 26 to 45.\<close>

definition char_skinned_meshes :: "host \<Rightarrow> obj list" where
  "char_skinned_meshes h = filter is_skinned_mesh (data_objects h)"

definition char_armatures :: "host \<Rightarrow> obj list" where
  "char_armatures h = filter (\<lambda>obj. type obj = ''ARMATURE'') (data_objects h)"

definition char_animations :: "host \<Rightarrow> string list" where
  "char_animations h = data_actions h"

definition char_verify :: "host \<Rightarrow> unit io" where
  "char_verify h = block [
     print (NL @ ''2. Verifying character contents...''),
     print (''   - SkinnedMeshes: '' @ str_nat (length (char_skinned_meshes h))),
     print (''   - Armatures: '' @ str_nat (length (char_armatures h))),
     print (''   - Animations: '' @ str_nat (length (char_animations h))),
     if_then (char_animations h \<noteq> [])
       (prints (map (\<lambda>action. ''      '' @ BULLET @ '' '' @ action) (take 5 (char_animations h)))),
     if_then (length (char_skinned_meshes h) = 0)
       (block [print (NL @ ''   '' @ WARNING @ '' WARNING: No skinned meshes found!''),
               sys_exit 1])]"

text \<open>Lines 47 to 91.\<close>

definition char_export :: "host \<Rightarrow> unit io" where
  "char_export h = block [
     print (NL @ ''3. Exporting to: '' @ CHAR_OUTPUT_GLB),
     print ''   (Animation warnings suppressed for cleaner output)'',
     try_except_Exception
       (block [call (ExportGltf char_gltf_args) (export_result h),
               print (''   '' @ CHECK @ '' Export successful!'')])
       (\<lambda>e. block [print (NL @ CROSS @ '' Export failed: '' @ e), sys_exit 1])]"

text \<open>Lines 93 to 105.\<close>

definition char_summary :: "host \<Rightarrow> unit io" where
  "char_summary h =
     bind (call_val (GetSize CHAR_OUTPUT_GLB) (getsize_result h)) (\<lambda>size.
     bind ([], truediv_MB size) (\<lambda>file_size.
       prints [NL @ RULE60,
               CHECK @ '' Character Export Complete!'',
               RULE60,
               NL @ ''GLB file: '' @ CHAR_OUTPUT_GLB,
               ''File size: '' @ format_2f file_size @ '' MB'',
               NL @ CHART @ '' Exported:'',
               ''   - '' @ str_nat (length (char_skinned_meshes h)) @ '' skinned mesh(es)'',
               ''   - '' @ str_nat (length (char_armatures h)) @ '' armature(s)'',
               ''   - '' @ str_nat (length (char_animations h)) @ '' animation(s)'',
               RULE60 @ NL]))"

definition export_character :: "host \<Rightarrow> unit io" where
  "export_character h = block [char_load h, char_verify h, char_export h, char_summary h]"

text \<open>The handlers around the call of the script's function, shared with \<open>export_rt_scene.py\<close>.\<close>

definition guarded_main :: "unit io \<Rightarrow> event list \<times> outcome" where
  "guarded_main m =
     finish (try_except_KeyboardInterrupt_Exception m
       (block [print (NL @ NL @ WARNING @ '' Export cancelled by user.''), sys_exit 1])
       (\<lambda>e. block [print (NL @ NL @ CROSS @ '' Unexpected error: '' @ e),
                   tell [PrintExc],
                   sys_exit 1]))"

definition main_export_char :: "host \<Rightarrow> event list \<times> outcome" where
  "main_export_char h = guarded_main (export_character h)"

section \<open>export\_rt\_scene.py\<close>

definition rt_gltf_args :: "(string \<times> pyval) list" where
  "rt_gltf_args =
     [(''filepath'', S RT_OUTPUT_GLB),
      (''export_format'', S ''GLB''),
      (''use_selection'', B False),
      (''use_visible'', B True),
      (''use_active_collection'', B False),
      (''export_cameras'', B True),
      (''export_lights'', B True),
      (''export_yup'', B True),
      (''export_apply'', B True),
      (''export_texcoords'', B True),
      (''export_normals'', B True),
      (''export_tangents'', B True),
      (''export_animations'', B True),
      (''export_anim_single_armature'', B True),
      (''export_nla_strips'', B True),
      (''export_def_bones'', B True),
      (''export_optimize_animation_size'', B True),
      (''export_skins'', B True),
      (''export_all_influences'', B False),
      (''export_draco_mesh_compression_enable'', B False)]"

text \<open>Lines 67 and 68: one line for a linked object. Its library is not \<open>None\<close> there.\<close>

definition print_linked_object :: "obj \<Rightarrow> unit io" where
  "print_linked_object obj =
     (case library obj of
        Some l \<Rightarrow> print (''      - '' @ name obj @ '' (from '' @ basename (filepath l) @ '')'')
      | None \<Rightarrow> raise (Exception ''NoneType object has no attribute filepath''))"

text \<open>Lines 110 to 115: one line for the skinned mesh at index \<open>i\<close>.\<close>

definition print_skinned_mesh :: "string list \<Rightarrow> nat \<times> obj \<Rightarrow> unit io" where
  "print_skinned_mesh scene_names im =
     (case im of (i, mesh) \<Rightarrow>
        (let in_scene = (name mesh \<in> set scene_names)
         in print (''      ['' @ str_nat i @ ''] '' @ name mesh
                   @ '' (viewport: '' @ str_bool (\<not> hide_viewport mesh)
                   @ '', in_scene: '' @ str_bool in_scene
                   @ '', id: '' @ str_nat (id_addr mesh)
                   @ '', loc: '' @ location_str mesh
                   @ '', lib: '' @ (case library mesh of None \<Rightarrow> ''None'' | Some l \<Rightarrow> repr l)
                   @ '')'')))"

text \<open>Lines 19 to 33.\<close>

definition rt_load :: "host \<Rightarrow> unit io" where
  "rt_load h = block [
     prints [NL @ RULE60, ''RT_SCENE Export Script'', RULE60],
     call ReadHomefile (read_homefile_result h),
     print (NL @ ''1. Loading RT_SCENE: '' @ RT_SCENE_FILE),
     if_then (\<not> path_exists h RT_SCENE_FILE)
       (block [print (CROSS @ '' ERROR: RT_SCENE file not found at: '' @ RT_SCENE_FILE),
               print ''   Update the path in this script to match your file location.'',
               sys_exit 1]),
     call (OpenMainfile RT_SCENE_FILE) (open_mainfile_result h)]"

text \<open>Lines 35 to 47.\<close>

definition rt_hide_working :: "host \<Rightarrow> unit io" where
  "rt_hide_working h =
     (case hide_working_rt (data_collections h) of
        (evs, collections', hidden_count) \<Rightarrow> block [
          print (NL @ ''   Hiding 'Working' collections to avoid duplicates...''),
          tell evs,
          if hidden_count = 0
          then print ''      (No 'Working' collections found)''
          else print (''      '' @ CHECK @ '' Hidden '' @ str_nat hidden_count
                      @ '' 'Working' collection(s)'')])"

text \<open>Lines 49 to 79.\<close>

definition rt_linked_objects :: "host \<Rightarrow> obj list" where
  "rt_linked_objects h = filter (\<lambda>obj. library obj \<noteq> None) (data_objects h)"

definition rt_linked_data :: "host \<Rightarrow> unit io" where
  "rt_linked_data h =
     (let linked_meshes = filter (\<lambda>mesh. library mesh \<noteq> None) (data_meshes h);
          linked_cameras = filter (\<lambda>cam. library cam \<noteq> None) (data_cameras h);
          linked_lights = filter (\<lambda>light. library light \<noteq> None) (data_lights h);
          linked_armatures = filter (\<lambda>arm. library arm \<noteq> None) (data_armatures h)
      in block [
        print (NL @ ''2. Processing linked data...''),
        if rt_linked_objects h \<noteq> []
        then block [
          prints [''   Found '' @ str_nat (length (rt_linked_objects h)) @ '' linked objects'',
                  ''   Found '' @ str_nat (length linked_meshes) @ '' linked meshes'',
                  ''   Found '' @ str_nat (length linked_cameras) @ '' linked cameras'',
                  ''   Found '' @ str_nat (length linked_lights) @ '' linked lights'',
                  ''   Found '' @ str_nat (length linked_armatures) @ '' linked armatures''],
          block (map print_linked_object (take 5 (rt_linked_objects h))),
          if_then (5 < length (rt_linked_objects h))
            (print (''      ... and '' @ str_nat (length (rt_linked_objects h) - 5) @ '' more'')),
          print (NL @ ''   '' @ CHECK
                 @ '' Library-linked data will be exported directly (no localization needed)'')]
        else prints [''   '' @ WARNING @ '' WARNING: No linked objects found!'',
                     ''   Your RT_SCENE file might not have linked collections.'',
                     ''   The export will continue but may not include character.'']])"

text \<open>Lines 81 to 99.\<close>

definition rt_remove_duplicates :: "host \<Rightarrow> unit io" where
  "rt_remove_duplicates h =
     (let scene_object_names = scene_objects h
      in case remove_orphaned scene_object_names [] (data_objects h) of
        (evs, objects_left, duplicates_removed) \<Rightarrow> block [
          print (NL @ ''3. Verifying scene contents...''),
          print ''   - Checking for duplicate orphaned objects...'',
          tell evs,
          if 0 < duplicates_removed
          then print (''      '' @ CHECK @ '' Removed '' @ str_nat duplicates_removed
                      @ '' orphaned duplicate(s)'')
          else print ''      (No duplicates found)''])"

text \<open>Lines 101 to 143. \<open>rt_all_objects\<close> is \<open>bpy.data.objects\<close> after the removal.\<close>

definition rt_all_objects :: "host \<Rightarrow> obj list" where
  "rt_all_objects h = fst (snd (remove_orphaned (scene_objects h) [] (data_objects h)))"

definition rt_skinned_meshes :: "host \<Rightarrow> obj list" where
  "rt_skinned_meshes h =
     filter (\<lambda>obj. type obj = ''MESH'' \<and> \<not> hide_viewport obj \<and> modifiers obj \<noteq> [] \<and>
                   list_ex (\<lambda>m. mod_type m = ''ARMATURE'') (modifiers obj))
       (rt_all_objects h)"

definition rt_cameras :: "host \<Rightarrow> obj list" where
  "rt_cameras h =
     filter (\<lambda>obj. type obj = ''CAMERA'' \<and> \<not> hide_viewport obj) (rt_all_objects h)"

definition rt_armatures :: "host \<Rightarrow> obj list" where
  "rt_armatures h =
     filter (\<lambda>obj. type obj = ''ARMATURE'' \<and> \<not> hide_viewport obj) (rt_all_objects h)"

definition rt_meshes :: "host \<Rightarrow> obj list" where
  "rt_meshes h = filter (\<lambda>obj. type obj = ''MESH'' \<and> \<not> hide_viewport obj) (rt_all_objects h)"

definition rt_animations :: "host \<Rightarrow> string list" where
  "rt_animations h = data_actions h"

definition rt_verify :: "host \<Rightarrow> unit io" where
  "rt_verify h = block [
     print (''   - SkinnedMeshes (character): '' @ str_nat (length (rt_skinned_meshes h))),
     if_then (rt_skinned_meshes h \<noteq> [])
       (block (map (print_skinned_mesh (scene_objects h))
                 (zip [0 ..< length (rt_skinned_meshes h)] (rt_skinned_meshes h)))),
     print (''   - Cameras: '' @ str_nat (length (rt_cameras h))),
     print (''   - Armatures (rigs): '' @ str_nat (length (rt_armatures h))),
     print (''   - Total meshes: '' @ str_nat (length (rt_meshes h))),
     print (''   - Animations: '' @ str_nat (length (rt_animations h))),
     if_then (rt_animations h \<noteq> [])
       (prints (map (\<lambda>action. ''      '' @ BULLET @ '' '' @ action) (take 3 (rt_animations h)))),
     if_then (length (rt_skinned_meshes h) = 0)
       (prints [NL @ ''   '' @ WARNING @ '' WARNING: No SkinnedMeshes found!'',
                ''   The character may not be properly linked or has no armature modifier.'']),
     if_then (length (rt_meshes h) < 10)
       (prints [NL @ ''   '' @ WARNING
                  @ '' WARNING: Very few meshes found - is the environment collection linked?'',
                ''   In Blender: File '' @ ARROW @ '' Link '' @ ARROW
                  @ '' ENV_ApeEscapeOffice_MASTER.blend '' @ ARROW
                  @ '' Select ENV collection'']),
     if_then (length (rt_cameras h) = 0)
       (print (NL @ ''   '' @ WARNING @ '' WARNING: No cameras found!''))]"

text \<open>
  Lines 145 to 171. \<open>rt_hide_linked\<close> is the loop over \<open>all_objects\<close>, and
  \<open>rt_export_objects\<close> is read from the objects as that loop leaves them.
\<close>

definition rt_hide_linked :: "host \<Rightarrow> event list \<times> obj list \<times> string list" where
  "rt_hide_linked h =
     (let override_objects = map name (filter (\<lambda>obj. library obj = None) (rt_all_objects h))
      in hide_linked_duplicates override_objects (rt_all_objects h))"

definition rt_export_objects :: "host \<Rightarrow> obj list" where
  "rt_export_objects h = filter (\<lambda>obj. \<not> hide_viewport obj) (fst (snd (rt_hide_linked h)))"

definition rt_prepare :: "host \<Rightarrow> unit io" where
  "rt_prepare h =
     (case rt_hide_linked h of
        (evs, all_objects', hidden_for_export) \<Rightarrow>
          (let output_dir = dirname RT_OUTPUT_GLB
           in block [
             print (NL @ ''4. Preparing export...''),
             tell evs,
             if_then (hidden_for_export \<noteq> [])
               (print (''   '' @ CHECK @ '' Temporarily hidden ''
                       @ str_nat (length hidden_for_export) @ '' linked duplicate(s)'')),
             print (''   Will export '' @ str_nat (length (rt_export_objects h)) @ '' objects''),
             if_then (\<not> path_exists h output_dir)
               (block [call (MakeDirs output_dir) (makedirs_result h),
                       print (''   Created directory: '' @ output_dir)])]))"

text \<open>Lines 173 to 218.\<close>

definition rt_export :: "host \<Rightarrow> unit io" where
  "rt_export h = block [
     print (NL @ ''5. Exporting to: '' @ RT_OUTPUT_GLB),
     print ''   (Animation bone warnings suppressed for cleaner output)'',
     try_except_Exception
       (block [call (ExportGltf rt_gltf_args) (export_result h),
               print (''   '' @ CHECK @ '' Export successful!'')])
       (\<lambda>e. block [prints [NL @ CROSS @ '' Export failed with error:'', ''   '' @ e],
                   sys_exit 1])]"

text \<open>Lines 220 to 242.\<close>

definition rt_summary :: "host \<Rightarrow> unit io" where
  "rt_summary h =
     bind (call_val (GetSize RT_OUTPUT_GLB) (getsize_result h)) (\<lambda>size.
     bind ([], truediv_MB size) (\<lambda>file_size.
       (let final_skinned_meshes = filter is_skinned_mesh (rt_export_objects h);
            final_armatures = filter (\<lambda>obj. type obj = ''ARMATURE'') (rt_export_objects h)
        in prints [
             NL @ RULE60,
             CHECK @ '' Export Complete!'',
             RULE60,
             NL @ ''GLB file: '' @ RT_OUTPUT_GLB,
             ''File size: '' @ format_2f file_size @ '' MB'',
             NL @ CHART @ '' Exported:'',
             ''   - '' @ str_nat (length (rt_export_objects h)) @ '' objects'',
             ''   - '' @ str_nat (length final_skinned_meshes) @ '' skinned meshes (character)'',
             ''   - '' @ str_nat (length final_armatures) @ '' armatures'',
             ''   - '' @ str_nat (length (rt_cameras h)) @ '' cameras'',
             ''   - '' @ str_nat (length (rt_animations h)) @ '' animations'',
             NL @ REFRESH @ '' Next: Refresh your browser to see the updated scene.'',
             RULE60 @ NL])))"

definition export_rt_scene :: "host \<Rightarrow> unit io" where
  "export_rt_scene h =
     block [rt_load h, rt_hide_working h, rt_linked_data h, rt_remove_duplicates h,
            rt_verify h, rt_prepare h, rt_export h, rt_summary h]"

definition main_export_rt_scene :: "host \<Rightarrow> event list \<times> outcome" where
  "main_export_rt_scene h = guarded_main (export_rt_scene h)"

section \<open>Classes of events\<close>

fun is_print :: "event \<Rightarrow> bool" where
  "is_print (Print s) = True"
| "is_print PrintExc = True"
| "is_print _ = False"

fun is_load :: "event \<Rightarrow> bool" where
  "is_load (OpenMainfile p) = True"
| "is_load _ = False"

fun is_toggle :: "event \<Rightarrow> bool" where
  "is_toggle (SetCollectionHideViewport n) = True"
| "is_toggle (SetCollectionHideRender n) = True"
| "is_toggle _ = False"

fun is_makedirs :: "event \<Rightarrow> bool" where
  "is_makedirs (MakeDirs p) = True"
| "is_makedirs _ = False"

fun is_export :: "event \<Rightarrow> bool" where
  "is_export (ExportGltf args) = True"
| "is_export _ = False"

fun is_getsize :: "event \<Rightarrow> bool" where
  "is_getsize (GetSize p) = True"
| "is_getsize _ = False"

text \<open>A printed line that starts with one of the given texts.\<close>

fun prints_with :: "string list \<Rightarrow> event \<Rightarrow> bool" where
  "prints_with ps (Print s) = list_ex (startswith s) ps"
| "prints_with ps _ = False"

text \<open>
  The lines of the diagnostic counts that the scripts print when they verify the loaded
  file, the line that says how many objects will be exported, and the file-size readout.
\<close>

definition is_count :: "event \<Rightarrow> bool" where
  "is_count = prints_with
     [''   - Meshes: '', ''   - Lights: '', ''   - Cameras: '',
      ''   - SkinnedMeshes: '', ''   - Armatures: '', ''   - Animations: '',
      ''   Found '', ''   - SkinnedMeshes (character): '', ''   - Armatures (rigs): '',
      ''   - Total meshes: '']"

definition is_will_export :: "event \<Rightarrow> bool" where
  "is_will_export = prints_with [''   Will export '']"

definition is_size :: "event \<Rightarrow> bool" where
  "is_size e = (is_getsize e \<or> prints_with [''File size: ''] e)"

text \<open>
  The events of a trace come in the order of the classes \<open>cls\<close>: no event of a later
  class is followed by an event of an earlier one. An event counts for the first class it
  is in.
\<close>

fun stage_of :: "(event \<Rightarrow> bool) list \<Rightarrow> event \<Rightarrow> nat option" where
  "stage_of [] e = None"
| "stage_of (P # Ps) e = (if P e then Some 0 else map_option Suc (stage_of Ps e))"

definition stages :: "(event \<Rightarrow> bool) list \<Rightarrow> event list \<Rightarrow> nat list" where
  "stages cls t = List.map_filter (stage_of cls) t"

definition in_order :: "(event \<Rightarrow> bool) list \<Rightarrow> event list \<Rightarrow> bool" where
  "in_order cls t = sorted (stages cls t)"

text \<open>The calls that may fail, and those of a trace.\<close>

fun is_fallible :: "event \<Rightarrow> bool" where
  "is_fallible ReadHomefile = True"
| "is_fallible (OpenMainfile p) = True"
| "is_fallible (MakeDirs p) = True"
| "is_fallible (ExportGltf args) = True"
| "is_fallible (GetSize p) = True"
| "is_fallible _ = False"

definition fallible :: "event list \<Rightarrow> event list" where
  "fallible t = filter is_fallible t"

text \<open>
  A call of the trace raised: the call was made and the host's answer to it is a fault,
  or the size that was read is too large to divide.
\<close>

definition fault_raised :: "host \<Rightarrow> event list \<Rightarrow> bool" where
  "fault_raised h t =
     ((ReadHomefile \<in> set t \<and> read_homefile_result h \<noteq> None) \<or>
      (list_ex is_load t \<and> open_mainfile_result h \<noteq> None) \<or>
      (list_ex is_makedirs t \<and> makedirs_result h \<noteq> None) \<or>
      (list_ex is_export t \<and> export_result h \<noteq> None) \<or>
      (list_ex is_getsize t \<and>
         (case getsize_result h of Inl f \<Rightarrow> True | Inr n \<Rightarrow> 2 ^ 1044 \<le> round53 n)))"

text \<open>
  What is printed after the last call of a trace, and whether an error message is in it:
  a line with the cross or the warning sign.
\<close>

definition printed_last :: "event list \<Rightarrow> event list" where
  "printed_last t = rev (takeWhile is_print (rev t))"

fun is_error_message :: "event \<Rightarrow> bool" where
  "is_error_message (Print s) = (contains CROSS s \<or> contains WARNING s)"
| "is_error_message _ = False"

section \<open>Example data\<close>

definition ex_obj :: "string \<Rightarrow> string \<Rightarrow> modifier list \<Rightarrow> obj" where
  "ex_obj n t ms =
     \<lparr>name = n, library = None, hide_viewport = False, hide_render = False,
      type = t, modifiers = ms, id_addr = 0, location_str = ''(0.0, 0.0, 0.0)''\<rparr>"

definition ex_collection :: "string \<Rightarrow> string list \<Rightarrow> collection" where
  "ex_collection n members =
     \<lparr>name = n, library = None, hide_viewport = False, hide_render = False,
      coll_objects = members\<rparr>"

definition ex_host :: host where
  "ex_host =
     \<lparr>unicode_upper = (\<lambda>s. s),
      path_exists = (\<lambda>p. True),
      read_homefile_result = None,
      open_mainfile_result = None,
      data_objects =
        [ex_obj ''Body'' ''MESH'' [Modifier ''ARMATURE''],
         ex_obj ''Desk'' ''MESH'' [],
         ex_obj ''Desk.001'' ''MESH'' [],
         ex_obj ''Rig'' ''ARMATURE'' [],
         ex_obj ''Sun'' ''LIGHT'' [],
         ex_obj ''Cam'' ''CAMERA'' []],
      data_collections =
        [ex_collection ''EXPORT'' [''Body'', ''Desk'', ''Rig'', ''Sun'', ''Cam''],
         ex_collection ''Working'' [''Desk.001'']],
      data_meshes = [],
      data_cameras = [],
      data_lights = [],
      data_armatures = [],
      data_actions = [''Idle''],
      scene_objects = [''Body'', ''Desk'', ''Rig'', ''Sun'', ''Cam''],
      makedirs_result = None,
      export_result = None,
      getsize_result = Inr 1234567\<rparr>"

section \<open>Strings\<close>

lemma startswith_prefix: "startswith s p = prefix p s"
  by (auto simp: startswith_def prefix_def take_Suc_conv_app_nth
           intro: exI [of _ "drop (length p) s"])
     (metis append_take_drop_id)

lemma contains_sublist: "contains sub s = sublist sub s"
proof (induction s)
  case Nil
  then show ?case by simp
next
  case (Cons c cs)
  then show ?case
    by (simp add: startswith_prefix sublist_Cons_right)
qed

section \<open>The collection-hiding steps\<close>

lemma hide_working_env_collections:
  "fst (snd (hide_working_env U cs)) =
     map (\<lambda>c. if contains ''WORKING'' (upper U (name c))
               then c\<lparr>hide_viewport := True, hide_render := True\<rparr> else c) cs"
  by (induction cs) (auto split: prod.splits)

lemma hide_working_rt_collections:
  "fst (snd (hide_working_rt cs)) =
     map (\<lambda>c. if contains ''Working'' (name c)
               then c\<lparr>hide_viewport := True, hide_render := True\<rparr> else c) cs"
  by (induction cs) (auto split: prod.splits)

text \<open>
  C2, as amended. In the collection-hiding step of \<open>export_env.py\<close> a collection gets
  both \<open>hide_viewport\<close> and \<open>hide_render\<close> set to \<open>True\<close> exactly when its
  upper-cased name contains \<open>WORKING\<close>; in that of \<open>export_rt_scene.py\<close>, exactly when
  its name contains \<open>Working\<close>. Every other collection is left as it is.
\<close>

theorem hide_working_flags:
  "fst (snd (hide_working_env U cs)) =
     map (\<lambda>c. if contains ''WORKING'' (upper U (name c))
               then c\<lparr>hide_viewport := True, hide_render := True\<rparr> else c) cs
   \<and> fst (snd (hide_working_rt cs)) =
     map (\<lambda>c. if contains ''Working'' (name c)
               then c\<lparr>hide_viewport := True, hide_render := True\<rparr> else c) cs"
  by (simp only: hide_working_env_collections hide_working_rt_collections)

theorem hide_working_flags_witness:
  "fst (snd (hide_working_env (\<lambda>s. s) [ex_collection ''my working set'' [], ex_collection ''EXPORT'' []])) =
     [(ex_collection ''my working set'' [])\<lparr>hide_viewport := True, hide_render := True\<rparr>,
      ex_collection ''EXPORT'' []]
   \<and> fst (snd (hide_working_rt [ex_collection ''my working set'' [], ex_collection ''Working'' []])) =
     [ex_collection ''my working set'' [],
      (ex_collection ''Working'' [])\<lparr>hide_viewport := True, hide_render := True\<rparr>]"
  using hide_working_flags [of "\<lambda>s. s" "[ex_collection ''my working set'' [], ex_collection ''EXPORT'' []]"]
        hide_working_flags [of "\<lambda>s. s" "[ex_collection ''my working set'' [], ex_collection ''Working'' []]"]
  by (simp add: ex_collection_def startswith_def is_ascii_def ascii_upper_def)

text \<open>
  C2 as stated fails in \<open>export_env.py\<close>: the collection named \<open>Working\<close> is hidden,
  and its name does not contain \<open>WORKING\<close>.
\<close>

theorem hide_working_substring_counterexample:
  "\<not> contains ''WORKING'' ''Working''
   \<and> fst (snd (hide_working_env (\<lambda>s. s) [ex_collection ''Working'' []])) =
       [(ex_collection ''Working'' [])\<lparr>hide_viewport := True, hide_render := True\<rparr>]"
  by (simp add: ex_collection_def startswith_def is_ascii_def ascii_upper_def)

section \<open>The orphaned-duplicate removal\<close>

lemma orphaned_duplicate_drop:
  assumes "name obj \<notin> set names"
  shows "orphaned_duplicate names (kept @ obj # rest) x = orphaned_duplicate names (kept @ rest) x"
  using assms by (auto simp: orphaned_duplicate_def list_ex_iff)

lemma remove_orphaned_data:
  "fst (snd (remove_orphaned names kept rest)) =
     kept @ filter (\<lambda>x. \<not> orphaned_duplicate names (kept @ rest) x) rest"
proof (induction rest arbitrary: kept)
  case Nil
  then show ?case by simp
next
  case (Cons obj rest)
  show ?case
  proof (cases "orphaned_duplicate names (kept @ obj # rest) obj")
    case True
    then have out: "name obj \<notin> set names"
      by (simp add: orphaned_duplicate_def)
    from True have "fst (snd (remove_orphaned names kept (obj # rest))) =
        fst (snd (remove_orphaned names kept rest))"
      by (auto simp: orphaned_duplicate_def Let_def split: prod.splits)
    also have "\<dots> = kept @ filter (\<lambda>x. \<not> orphaned_duplicate names (kept @ rest) x) rest"
      by (rule Cons.IH)
    finally show ?thesis
      using True by (simp add: orphaned_duplicate_drop [OF out])
  next
    case False
    then have "fst (snd (remove_orphaned names kept (obj # rest))) =
        fst (snd (remove_orphaned names (kept @ [obj]) rest))"
      by (auto simp: orphaned_duplicate_def Let_def)
    also have "\<dots> = (kept @ [obj]) @
        filter (\<lambda>x. \<not> orphaned_duplicate names ((kept @ [obj]) @ rest) x) rest"
      by (rule Cons.IH)
    finally show ?thesis
      using False by simp
  qed
qed

lemma remove_orphaned_events:
  "filter (\<lambda>e. \<exists>n. e = RemoveObject n) (fst (remove_orphaned names kept rest)) =
     map (\<lambda>x. RemoveObject (name x)) (filter (orphaned_duplicate names (kept @ rest)) rest)"
proof (induction rest arbitrary: kept)
  case Nil
  then show ?case by simp
next
  case (Cons obj rest)
  show ?case
  proof (cases "orphaned_duplicate names (kept @ obj # rest) obj")
    case True
    then have out: "name obj \<notin> set names"
      by (simp add: orphaned_duplicate_def)
    have drop: "orphaned_duplicate names (kept @ obj # rest) = orphaned_duplicate names (kept @ rest)"
      by (rule ext) (rule orphaned_duplicate_drop [OF out])
    from True have "filter (\<lambda>e. \<exists>n. e = RemoveObject n)
          (fst (remove_orphaned names kept (obj # rest))) =
        RemoveObject (name obj) #
          filter (\<lambda>e. \<exists>n. e = RemoveObject n) (fst (remove_orphaned names kept rest))"
      by (auto simp: orphaned_duplicate_def Let_def split: prod.splits)
    then show ?thesis
      using True by (simp add: Cons.IH drop)
  next
    case False
    then have "fst (remove_orphaned names kept (obj # rest)) =
        fst (remove_orphaned names (kept @ [obj]) rest)"
      by (auto simp: orphaned_duplicate_def Let_def)
    then show ?thesis
      using False Cons.IH [of "kept @ [obj]"] by simp
  qed
qed

text \<open>
  C3. In the orphaned-duplicate removal of \<open>export_rt_scene.py\<close>, an object is removed
  from the file's object data exactly when its name is not among the scene's object names
  and some object has a name that starts with the removed object's base name and is among
  the scene's object names; the base name is the part of the name before its first dot.
  The objects left are those that do not meet the condition, in their order, and the
  removal calls are those of the objects that meet it, in their order.
\<close>

theorem remove_orphaned_exactly:
  "fst (snd (remove_orphaned scene_object_names [] objs)) =
     filter (\<lambda>obj. \<not> (name obj \<notin> set scene_object_names \<and>
                      (\<exists>other \<in> set objs.
                          startswith (name other) (takeWhile (\<lambda>c. c \<noteq> CHR ''.'') (name obj)) \<and>
                          name other \<in> set scene_object_names)))
       objs
   \<and> filter (\<lambda>e. \<exists>n. e = RemoveObject n) (fst (remove_orphaned scene_object_names [] objs)) =
     map (\<lambda>obj. RemoveObject (name obj))
       (filter (\<lambda>obj. name obj \<notin> set scene_object_names \<and>
                      (\<exists>other \<in> set objs.
                          startswith (name other) (takeWhile (\<lambda>c. c \<noteq> CHR ''.'') (name obj)) \<and>
                          name other \<in> set scene_object_names))
          objs)"
  using remove_orphaned_data [of scene_object_names "[]" objs]
        remove_orphaned_events [of scene_object_names "[]" objs]
  by (simp add: orphaned_duplicate_def [abs_def] list_ex_iff split_dot_first_def)

theorem remove_orphaned_exactly_witness:
  "fst (snd (remove_orphaned [''Desk''] []
       [ex_obj ''Desk'' ''MESH'' [], ex_obj ''Desk.001'' ''MESH'' [], ex_obj ''Lamp.001'' ''LIGHT'' []])) =
     [ex_obj ''Desk'' ''MESH'' [], ex_obj ''Lamp.001'' ''LIGHT'' []]
   \<and> filter (\<lambda>e. \<exists>n. e = RemoveObject n) (fst (remove_orphaned [''Desk''] []
       [ex_obj ''Desk'' ''MESH'' [], ex_obj ''Desk.001'' ''MESH'' [], ex_obj ''Lamp.001'' ''LIGHT'' []])) =
     [RemoveObject ''Desk.001'']"
  using remove_orphaned_exactly [of "[''Desk'']"
      "[ex_obj ''Desk'' ''MESH'' [], ex_obj ''Desk.001'' ''MESH'' [], ex_obj ''Lamp.001'' ''LIGHT'' []]"]
  by (simp add: ex_obj_def startswith_def)

text \<open>
  C9. The orphaned-duplicate removal of \<open>export_rt_scene.py\<close> never removes an object
  of the current scene: the objects whose name is among the scene's object names are the
  same before and after the step.
\<close>

theorem remove_orphaned_keeps_scene:
  "filter (\<lambda>obj. name obj \<in> set scene_object_names)
       (fst (snd (remove_orphaned scene_object_names [] objs))) =
     filter (\<lambda>obj. name obj \<in> set scene_object_names) objs
   \<and> (\<forall>obj \<in> set objs. name obj \<in> set scene_object_names \<longrightarrow>
         obj \<in> set (fst (snd (remove_orphaned scene_object_names [] objs))))"
proof -
  have "filter (\<lambda>obj. name obj \<in> set scene_object_names)
       (fst (snd (remove_orphaned scene_object_names [] objs))) =
     filter (\<lambda>obj. name obj \<in> set scene_object_names) objs"
    by (simp add: remove_orphaned_data orphaned_duplicate_def) (rule filter_cong, auto)
  moreover have "\<forall>obj \<in> set objs. name obj \<in> set scene_object_names \<longrightarrow>
         obj \<in> set (fst (snd (remove_orphaned scene_object_names [] objs)))"
    by (simp add: remove_orphaned_data orphaned_duplicate_def)
  ultimately show ?thesis by simp
qed

theorem remove_orphaned_keeps_scene_witness:
  "ex_obj ''Desk'' ''MESH'' [] \<in> set (fst (snd (remove_orphaned [''Desk''] []
       [ex_obj ''Desk'' ''MESH'' [], ex_obj ''Desk.001'' ''MESH'' []])))
   \<and> name (ex_obj ''Desk'' ''MESH'' []) \<in> set [''Desk'']"
  using remove_orphaned_keeps_scene [of "[''Desk'']"
      "[ex_obj ''Desk'' ''MESH'' [], ex_obj ''Desk.001'' ''MESH'' []]"]
  by (simp add: ex_obj_def)

section \<open>The script monad\<close>

lemma fst_bind: "fst (bind m f) = fst m @ (case snd m of Inl e \<Rightarrow> [] | Inr x \<Rightarrow> fst (f x))"
  by (cases m) (auto simp: bind_def split: sum.splits prod.splits)

lemma snd_bind: "snd (bind m f) = (case snd m of Inl e \<Rightarrow> Inl e | Inr x \<Rightarrow> snd (f x))"
  by (cases m) (auto simp: bind_def split: sum.splits prod.splits)

lemma fst_block_Cons:
  "fst (block (s # s' # ss)) =
     fst s @ (case snd s of Inl e \<Rightarrow> [] | Inr x \<Rightarrow> fst (block (s' # ss)))"
  by (simp add: fst_bind split: sum.splits)

lemma snd_block_Cons:
  "snd (block (s # s' # ss)) =
     (case snd s of Inl e \<Rightarrow> Inl e | Inr x \<Rightarrow> snd (block (s' # ss)))"
  by (simp add: snd_bind split: sum.splits)

lemma block_single: "fst (block [s]) = fst s" "snd (block [s]) = snd s"
  by (simp_all add: fst_bind snd_bind ret_def split: sum.splits)

lemma block_Nil: "fst (block []) = []" "snd (block []) = Inr ()"
  by (simp_all add: ret_def)

lemma io_basic:
  "fst (tell evs) = evs" "snd (tell evs) = Inr ()"
  "fst (print s) = [Print s]" "snd (print s) = Inr ()"
  "fst (prints ss) = map Print ss" "snd (prints ss) = Inr ()"
  "fst (call ev r) = [ev]"
  "snd (call ev r) =
     (case r of None \<Rightarrow> Inr () | Some (Error s) \<Rightarrow> Inl (Exception s)
      | Some Interrupt \<Rightarrow> Inl KeyboardInterrupt)"
  "fst (call_val ev r') = [ev]"
  "snd (call_val ev r') =
     (case r' of Inl (Error s) \<Rightarrow> Inl (Exception s) | Inl Interrupt \<Rightarrow> Inl KeyboardInterrupt
      | Inr x \<Rightarrow> Inr x)"
  "fst (sys_exit n :: unit io) = []" "snd (sys_exit n :: unit io) = Inl (SystemExit n)"
  "fst (raise e :: unit io) = []" "snd (raise e :: unit io) = Inl e"
  "fst (if_then b m) = (if b then fst m else [])"
  "snd (if_then b m) = (if b then snd m else Inr ())"
  by (simp_all add: tell_def print_def prints_def call_def call_val_def sys_exit_def
        raise_def if_then_def ret_def split: option.splits sum.splits fault.splits)

lemma fst_try:
  "fst (try_except_Exception m h) =
     fst m @ (case snd m of Inl (Exception s) \<Rightarrow> fst (h s) | _ \<Rightarrow> [])"
  by (cases m) (auto simp: try_except_Exception_def split: sum.splits exc.splits prod.splits)

lemma snd_try:
  "snd (try_except_Exception m h) = (case snd m of Inl (Exception s) \<Rightarrow> snd (h s) | r \<Rightarrow> r)"
  by (cases m) (auto simp: try_except_Exception_def split: sum.splits exc.splits prod.splits)

lemma case_raised:
  "(case raised f of Exception s \<Rightarrow> A s | KeyboardInterrupt \<Rightarrow> B | SystemExit n \<Rightarrow> C n) =
     (case f of Error s \<Rightarrow> A s | Interrupt \<Rightarrow> B)"
  by (cases f) simp_all

lemmas io_simps =
  fst_bind snd_bind fst_block_Cons snd_block_Cons block_single block_Nil io_basic fst_try snd_try case_raised

lemma fst_finish: "fst (finish m) = fst m"
  by (cases m) (auto simp: finish_def split: sum.splits exc.splits)

lemma snd_finish:
  "snd (finish m) =
     (case snd m of Inr u \<Rightarrow> Exit 0 | Inl (SystemExit n) \<Rightarrow> Exit n | Inl e \<Rightarrow> Uncaught e)"
  by (cases m) (auto simp: finish_def split: sum.splits exc.splits)

lemma fst_guarded_main:
  "fst (guarded_main m) =
     fst m @ (case snd m of
                Inl KeyboardInterrupt \<Rightarrow> [Print (NL @ NL @ WARNING @ '' Export cancelled by user.'')]
              | Inl (Exception s) \<Rightarrow> [Print (NL @ NL @ CROSS @ '' Unexpected error: '' @ s), PrintExc]
              | _ \<Rightarrow> [])"
  by (cases m)
     (simp add: guarded_main_def try_except_KeyboardInterrupt_Exception_def fst_finish io_simps
           case_prod_beta del: block.simps split: sum.splits exc.splits)

lemma snd_guarded_main:
  "snd (guarded_main m) =
     (case snd m of Inr u \<Rightarrow> Exit 0 | Inl (SystemExit n) \<Rightarrow> Exit n | Inl e \<Rightarrow> Exit 1)"
  by (cases m)
     (simp add: guarded_main_def try_except_KeyboardInterrupt_Exception_def snd_finish io_simps
           case_prod_beta del: block.simps split: sum.splits exc.splits)

section \<open>The calls that may fail\<close>

lemma fallible_simps:
  "fallible [] = []"
  "fallible (a @ b) = fallible a @ fallible b"
  "fallible (Print s # t) = fallible t"
  "fallible (PrintExc # t) = fallible t"
  "fallible (SetCollectionHideViewport n # t) = fallible t"
  "fallible (SetCollectionHideRender n # t) = fallible t"
  "fallible (SetObjectHideViewport n # t) = fallible t"
  "fallible (SetObjectHideRender n # t) = fallible t"
  "fallible (RemoveObject n # t) = fallible t"
  "fallible (ReadHomefile # t) = ReadHomefile # fallible t"
  "fallible (OpenMainfile p # t) = OpenMainfile p # fallible t"
  "fallible (MakeDirs p # t) = MakeDirs p # fallible t"
  "fallible (ExportGltf args # t) = ExportGltf args # fallible t"
  "fallible (GetSize p # t) = GetSize p # fallible t"
  "fallible (map Print ss) = []"
  "fallible (map (Print \<circ> f) xs) = []"
  "fallible (map (\<lambda>x. Print (f x)) xs) = []"
  "fallible (if c then a else b) = (if c then fallible a else fallible b)"
  by (simp_all add: fallible_def)

section \<open>export\_env.py: the phases\<close>

lemma snd_env_load:
  "snd (env_load h) =
     (case open_mainfile_result h of
        None \<Rightarrow> Inr ()
      | Some (Error s) \<Rightarrow> Inl (SystemExit 1)
      | Some Interrupt \<Rightarrow> Inl KeyboardInterrupt)"
  by (simp add: env_load_def io_simps del: block.simps split: option.splits fault.splits)

lemma fallible_env_load: "fallible (fst (env_load h)) = [OpenMainfile ENV_FILE]"
  by (simp add: env_load_def io_simps fallible_simps del: block.simps
           split: option.splits fault.splits)

lemma snd_env_verify: "snd (env_verify h) = Inr ()"
  by (simp add: env_verify_def io_simps del: block.simps)

lemma fallible_env_verify: "fallible (fst (env_verify h)) = []"
  by (simp add: env_verify_def io_simps fallible_simps del: block.simps)

lemma snd_env_prepare: "snd (env_prepare h) = Inr ()"
  by (simp add: env_prepare_def io_simps case_prod_beta del: block.simps)

lemma fallible_hide_working_env: "fallible (fst (hide_working_env U cs)) = []"
  by (induction cs) (auto simp: fallible_def split: prod.splits)

lemma fallible_env_prepare:
  "fallible (fst (env_prepare h)) = []"
  by (simp add: env_prepare_def io_simps fallible_simps fallible_hide_working_env case_prod_beta
           del: block.simps)

lemma snd_env_export:
  "snd (env_export h) =
     (case export_result h of
        None \<Rightarrow> Inr ()
      | Some (Error s) \<Rightarrow> Inl (SystemExit 1)
      | Some Interrupt \<Rightarrow> Inl KeyboardInterrupt)"
  by (simp add: env_export_def io_simps del: block.simps split: option.splits fault.splits)

lemma fallible_env_export: "fallible (fst (env_export h)) = [ExportGltf env_gltf_args]"
  by (simp add: env_export_def io_simps fallible_simps del: block.simps
           split: option.splits fault.splits)

lemma snd_env_summary:
  "snd (env_summary h) =
     (case getsize_result h of
        Inl f \<Rightarrow> Inl (raised f)
      | Inr n \<Rightarrow> (case truediv_MB n of Inl e \<Rightarrow> Inl e | Inr x \<Rightarrow> Inr ()))"
  by (simp add: env_summary_def io_simps split: sum.splits fault.splits)

lemma fallible_env_summary: "fallible (fst (env_summary h)) = [GetSize ENV_OUTPUT_GLB]"
  by (simp add: env_summary_def io_simps fallible_simps split: sum.splits)

lemmas env_phases =
  snd_env_load snd_env_verify snd_env_prepare snd_env_export snd_env_summary
  fallible_env_load fallible_env_verify fallible_env_prepare fallible_env_export fallible_env_summary

lemma fallible_export_environment:
  "fallible (fst (export_environment h)) =
     OpenMainfile ENV_FILE #
     (case open_mainfile_result h of
        Some f \<Rightarrow> []
      | None \<Rightarrow>
          ExportGltf env_gltf_args #
          (case export_result h of Some f \<Rightarrow> [] | None \<Rightarrow> [GetSize ENV_OUTPUT_GLB]))"
  by (simp add: export_environment_def fst_block_Cons block_single fallible_simps env_phases
           del: block.simps split: option.splits fault.splits)

lemma snd_export_environment:
  "snd (export_environment h) =
     (case open_mainfile_result h of
        Some (Error s) \<Rightarrow> Inl (SystemExit 1)
      | Some Interrupt \<Rightarrow> Inl KeyboardInterrupt
      | None \<Rightarrow>
          (case export_result h of
             Some (Error s) \<Rightarrow> Inl (SystemExit 1)
           | Some Interrupt \<Rightarrow> Inl KeyboardInterrupt
           | None \<Rightarrow> snd (env_summary h)))"
  by (simp add: export_environment_def snd_block_Cons block_single snd_env_load snd_env_verify
           snd_env_prepare snd_env_export
           del: block.simps split: option.splits fault.splits)

section \<open>export\_char.py: the phases\<close>

lemma snd_char_load:
  "snd (char_load h) =
     (case open_mainfile_result h of None \<Rightarrow> Inr () | Some f \<Rightarrow> Inl (raised f))"
  by (simp add: char_load_def io_simps del: block.simps split: option.splits fault.splits)

lemma fallible_char_load: "fallible (fst (char_load h)) = [OpenMainfile CHAR_FILE]"
  by (simp add: char_load_def io_simps fallible_simps del: block.simps
           split: option.splits fault.splits)

lemma snd_char_verify:
  "snd (char_verify h) = (if char_skinned_meshes h = [] then Inl (SystemExit 1) else Inr ())"
  by (simp add: char_verify_def io_simps del: block.simps)

lemma fallible_char_verify: "fallible (fst (char_verify h)) = []"
  by (simp add: char_verify_def io_simps fallible_simps del: block.simps)

lemma snd_char_export:
  "snd (char_export h) =
     (case export_result h of
        None \<Rightarrow> Inr ()
      | Some (Error s) \<Rightarrow> Inl (SystemExit 1)
      | Some Interrupt \<Rightarrow> Inl KeyboardInterrupt)"
  by (simp add: char_export_def io_simps del: block.simps split: option.splits fault.splits)

lemma fallible_char_export: "fallible (fst (char_export h)) = [ExportGltf char_gltf_args]"
  by (simp add: char_export_def io_simps fallible_simps del: block.simps
           split: option.splits fault.splits)

lemma snd_char_summary:
  "snd (char_summary h) =
     (case getsize_result h of
        Inl f \<Rightarrow> Inl (raised f)
      | Inr n \<Rightarrow> (case truediv_MB n of Inl e \<Rightarrow> Inl e | Inr x \<Rightarrow> Inr ()))"
  by (simp add: char_summary_def io_simps split: sum.splits fault.splits)

lemma fallible_char_summary: "fallible (fst (char_summary h)) = [GetSize CHAR_OUTPUT_GLB]"
  by (simp add: char_summary_def io_simps fallible_simps split: sum.splits)

lemmas char_phases =
  snd_char_load snd_char_verify snd_char_export snd_char_summary
  fallible_char_load fallible_char_verify fallible_char_export fallible_char_summary

lemma fallible_export_character:
  "fallible (fst (export_character h)) =
     OpenMainfile CHAR_FILE #
     (if open_mainfile_result h = None \<and> char_skinned_meshes h \<noteq> []
      then ExportGltf char_gltf_args #
           (case export_result h of Some f \<Rightarrow> [] | None \<Rightarrow> [GetSize CHAR_OUTPUT_GLB])
      else [])"
  by (simp add: export_character_def fst_block_Cons block_single fallible_simps char_phases
           del: block.simps split: option.splits fault.splits)

lemma snd_export_character:
  "snd (export_character h) =
     (case open_mainfile_result h of
        Some f \<Rightarrow> Inl (raised f)
      | None \<Rightarrow>
          if char_skinned_meshes h = [] then Inl (SystemExit 1)
          else (case export_result h of
                  Some (Error s) \<Rightarrow> Inl (SystemExit 1)
                | Some Interrupt \<Rightarrow> Inl KeyboardInterrupt
                | None \<Rightarrow> snd (char_summary h)))"
  by (simp add: export_character_def snd_block_Cons block_single snd_char_load snd_char_verify
           snd_char_export
           del: block.simps split: option.splits fault.splits)

section \<open>export\_rt\_scene.py: the phases\<close>

lemma snd_rt_load:
  "snd (rt_load h) =
     (case read_homefile_result h of
        Some f \<Rightarrow> Inl (raised f)
      | None \<Rightarrow>
          if \<not> path_exists h RT_SCENE_FILE then Inl (SystemExit 1)
          else (case open_mainfile_result h of None \<Rightarrow> Inr () | Some f \<Rightarrow> Inl (raised f)))"
  by (simp add: rt_load_def io_simps del: block.simps split: option.splits fault.splits)

lemma fallible_rt_load:
  "fallible (fst (rt_load h)) =
     ReadHomefile #
     (if read_homefile_result h = None \<and> path_exists h RT_SCENE_FILE
      then [OpenMainfile RT_SCENE_FILE] else [])"
  by (simp add: rt_load_def io_simps fallible_simps del: block.simps
           split: option.splits fault.splits)

lemma snd_rt_hide_working: "snd (rt_hide_working h) = Inr ()"
  by (simp add: rt_hide_working_def io_simps case_prod_beta del: block.simps)

lemma fallible_hide_working_rt: "fallible (fst (hide_working_rt cs)) = []"
  by (induction cs) (auto simp: fallible_def split: prod.splits)

lemma fallible_rt_hide_working:
  "fallible (fst (rt_hide_working h)) = []"
  by (simp add: rt_hide_working_def io_simps fallible_simps fallible_hide_working_rt case_prod_beta
           del: block.simps)

lemma block_print_linked:
  "list_all (\<lambda>obj. library obj \<noteq> None) xs \<Longrightarrow>
     snd (block (map print_linked_object xs)) = Inr () \<and>
     fallible (fst (block (map print_linked_object xs))) = []"
proof (induction xs)
  case Nil
  then show ?case by (simp add: ret_def fallible_simps)
next
  case (Cons x xs)
  then show ?case
    by (cases xs) (auto simp: io_simps fallible_simps print_linked_object_def simp del: block.simps)
qed

lemma rt_linked_take: "list_all (\<lambda>obj. library obj \<noteq> None) (take n (rt_linked_objects h))"
  by (auto simp: rt_linked_objects_def list_all_iff dest: in_set_takeD)

lemma snd_rt_linked_data: "snd (rt_linked_data h) = Inr ()"
  using block_print_linked [OF rt_linked_take [of 5 h]]
  by (simp add: rt_linked_data_def io_simps Let_def del: block.simps)

lemma fallible_rt_linked_data: "fallible (fst (rt_linked_data h)) = []"
  using block_print_linked [OF rt_linked_take [of 5 h]]
  by (simp add: rt_linked_data_def io_simps fallible_simps Let_def del: block.simps)


lemma fallible_remove_orphaned: "fallible (fst (remove_orphaned names kept rest)) = []"
  by (induction rest arbitrary: kept) (simp_all add: fallible_def Let_def case_prod_beta)

lemma snd_rt_remove_duplicates: "snd (rt_remove_duplicates h) = Inr ()"
  by (simp add: rt_remove_duplicates_def io_simps Let_def case_prod_beta del: block.simps)

lemma fallible_rt_remove_duplicates: "fallible (fst (rt_remove_duplicates h)) = []"
  by (simp add: rt_remove_duplicates_def io_simps fallible_simps fallible_remove_orphaned Let_def
           case_prod_beta del: block.simps)

lemma block_print_skinned:
  "snd (block (map (print_skinned_mesh ns) xs)) = Inr () \<and>
   fallible (fst (block (map (print_skinned_mesh ns) xs))) = []"
proof (induction xs)
  case Nil
  then show ?case by (simp add: ret_def fallible_simps)
next
  case (Cons x xs)
  then show ?case
    by (cases xs)
       (auto simp: io_simps fallible_simps print_skinned_mesh_def Let_def case_prod_beta
             simp del: block.simps)
qed

lemma snd_rt_verify: "snd (rt_verify h) = Inr ()"
  by (simp add: rt_verify_def io_simps block_print_skinned del: block.simps)

lemma fallible_rt_verify: "fallible (fst (rt_verify h)) = []"
  by (simp add: rt_verify_def io_simps fallible_simps block_print_skinned del: block.simps)

lemma fallible_hide_linked_duplicates: "fallible (fst (hide_linked_duplicates ov objs)) = []"
  by (induction objs) (auto simp: fallible_def split: prod.splits)

lemma snd_rt_prepare:
  "snd (rt_prepare h) =
     (if path_exists h (dirname RT_OUTPUT_GLB) then Inr ()
      else (case makedirs_result h of None \<Rightarrow> Inr () | Some f \<Rightarrow> Inl (raised f)))"
  by (simp add: rt_prepare_def io_simps Let_def case_prod_beta del: block.simps
           split: option.splits fault.splits)

lemma fallible_rt_prepare:
  "fallible (fst (rt_prepare h)) =
     (if path_exists h (dirname RT_OUTPUT_GLB) then [] else [MakeDirs (dirname RT_OUTPUT_GLB)])"
  by (simp add: rt_prepare_def rt_hide_linked_def io_simps fallible_simps
           fallible_hide_linked_duplicates Let_def case_prod_beta del: block.simps
           split: option.splits fault.splits)

lemma snd_rt_export:
  "snd (rt_export h) =
     (case export_result h of
        None \<Rightarrow> Inr ()
      | Some (Error s) \<Rightarrow> Inl (SystemExit 1)
      | Some Interrupt \<Rightarrow> Inl KeyboardInterrupt)"
  by (simp add: rt_export_def io_simps del: block.simps split: option.splits fault.splits)

lemma fallible_rt_export: "fallible (fst (rt_export h)) = [ExportGltf rt_gltf_args]"
  by (simp add: rt_export_def io_simps fallible_simps del: block.simps
           split: option.splits fault.splits)

lemma snd_rt_summary:
  "snd (rt_summary h) =
     (case getsize_result h of
        Inl f \<Rightarrow> Inl (raised f)
      | Inr n \<Rightarrow> (case truediv_MB n of Inl e \<Rightarrow> Inl e | Inr x \<Rightarrow> Inr ()))"
  by (simp add: rt_summary_def io_simps Let_def split: sum.splits fault.splits)

lemma fallible_rt_summary: "fallible (fst (rt_summary h)) = [GetSize RT_OUTPUT_GLB]"
  by (simp add: rt_summary_def io_simps fallible_simps Let_def split: sum.splits)

lemmas rt_phases =
  snd_rt_load snd_rt_hide_working snd_rt_linked_data snd_rt_remove_duplicates snd_rt_verify
  snd_rt_prepare snd_rt_export snd_rt_summary
  fallible_rt_load fallible_rt_hide_working fallible_rt_linked_data fallible_rt_remove_duplicates
  fallible_rt_verify fallible_rt_prepare fallible_rt_export fallible_rt_summary

text \<open>Whether the script gets as far as the export call.\<close>

lemma snd_export_rt_scene:
  "snd (export_rt_scene h) =
     (case read_homefile_result h of
        Some f \<Rightarrow> Inl (raised f)
      | None \<Rightarrow>
          if \<not> path_exists h RT_SCENE_FILE then Inl (SystemExit 1)
          else (case open_mainfile_result h of
                  Some f \<Rightarrow> Inl (raised f)
                | None \<Rightarrow>
                    (case snd (rt_prepare h) of
                       Inl e \<Rightarrow> Inl e
                     | Inr u \<Rightarrow>
                         (case export_result h of
                            Some (Error s) \<Rightarrow> Inl (SystemExit 1)
                          | Some Interrupt \<Rightarrow> Inl KeyboardInterrupt
                          | None \<Rightarrow> snd (rt_summary h)))))"
  by (simp add: export_rt_scene_def snd_block_Cons block_single snd_rt_load snd_rt_hide_working
           snd_rt_linked_data snd_rt_remove_duplicates snd_rt_verify snd_rt_export
           del: block.simps split: option.splits fault.splits sum.splits)

lemma fallible_export_rt_scene:
  "fallible (fst (export_rt_scene h)) =
     ReadHomefile #
     (if read_homefile_result h = None \<and> path_exists h RT_SCENE_FILE
      then OpenMainfile RT_SCENE_FILE #
           (case open_mainfile_result h of
              Some f \<Rightarrow> []
            | None \<Rightarrow>
                fallible (fst (rt_prepare h)) @
                (case snd (rt_prepare h) of
                   Inl e \<Rightarrow> []
                 | Inr u \<Rightarrow>
                     ExportGltf rt_gltf_args #
                     (case export_result h of Some f \<Rightarrow> [] | None \<Rightarrow> [GetSize RT_OUTPUT_GLB])))
      else [])"
  by (simp add: export_rt_scene_def fst_block_Cons block_single fallible_simps
           snd_rt_load snd_rt_hide_working snd_rt_linked_data snd_rt_remove_duplicates
           snd_rt_verify snd_rt_export
           fallible_rt_load fallible_rt_hide_working fallible_rt_linked_data
           fallible_rt_remove_duplicates fallible_rt_verify fallible_rt_export fallible_rt_summary
           del: block.simps split: option.splits fault.splits sum.splits)

section \<open>The export call\<close>

lemma filter_is_export_fallible: "filter is_export t = filter is_export (fallible t)"
proof -
  have "\<And>e. (is_fallible e \<and> is_export e) = is_export e"
    by (case_tac e) simp_all
  then show ?thesis by (simp add: fallible_def)
qed

lemma fallible_guarded_main: "fallible (fst (guarded_main m)) = fallible (fst m)"
  by (simp add: fst_guarded_main fallible_simps split: sum.splits exc.splits)

lemma exports_env:
  "filter is_export (fst (main_export_env h)) =
     (if open_mainfile_result h = None then [ExportGltf env_gltf_args] else [])"
  by (subst filter_is_export_fallible)
     (simp add: main_export_env_def fst_finish fallible_export_environment
           split: option.splits)

lemma exports_char:
  "filter is_export (fst (main_export_char h)) =
     (if open_mainfile_result h = None \<and> char_skinned_meshes h \<noteq> []
      then [ExportGltf char_gltf_args] else [])"
  by (subst filter_is_export_fallible)
     (simp add: main_export_char_def fallible_guarded_main fallible_export_character
           split: option.splits)

lemma exports_rt:
  "filter is_export (fst (main_export_rt_scene h)) =
     (if read_homefile_result h = None \<and> path_exists h RT_SCENE_FILE \<and>
         open_mainfile_result h = None \<and> snd (rt_prepare h) = Inr ()
      then [ExportGltf rt_gltf_args] else [])"
  by (subst filter_is_export_fallible)
     (simp add: main_export_rt_scene_def fallible_guarded_main fallible_export_rt_scene
           fallible_rt_prepare split: option.splits sum.splits)

lemma raised_not_exit: "raised f \<noteq> SystemExit n" "SystemExit n \<noteq> raised f"
  by (cases f; simp)+

lemma exit0_env:
  "snd (main_export_env h) = Exit 0 \<Longrightarrow> open_mainfile_result h = None"
  by (auto simp: main_export_env_def snd_finish snd_export_environment raised_not_exit
           split: option.splits fault.splits sum.splits exc.splits)

lemma exit0_char:
  "snd (main_export_char h) = Exit 0 \<Longrightarrow>
     open_mainfile_result h = None \<and> char_skinned_meshes h \<noteq> []"
  by (cases "open_mainfile_result h")
     (auto simp: main_export_char_def snd_guarded_main snd_export_character raised_not_exit
           split: option.splits fault.splits sum.splits exc.splits if_splits)

lemma exit0_rt:
  "snd (main_export_rt_scene h) = Exit 0 \<Longrightarrow>
     read_homefile_result h = None \<and> path_exists h RT_SCENE_FILE \<and>
     open_mainfile_result h = None \<and> snd (rt_prepare h) = Inr ()"
  by (cases "read_homefile_result h"; cases "open_mainfile_result h")
     (auto simp: main_export_rt_scene_def snd_guarded_main snd_export_rt_scene snd_rt_prepare
           raised_not_exit
           split: option.splits fault.splits sum.splits exc.splits if_splits)

text \<open>
  C4. On every run each script invokes the GLB export at most once, and exactly once on a
  run that ends with status 0; each invocation passes the script's fixed keyword
  arguments, which name the format \<open>GLB\<close>, export the visible objects only and leave
  Draco compression off, whatever the loaded scene holds.
\<close>

theorem export_invoked_once:
  "(filter is_export (fst (main_export_env h)) = [] \<or>
    filter is_export (fst (main_export_env h)) = [ExportGltf env_gltf_args])
   \<and> (snd (main_export_env h) = Exit 0 \<longrightarrow>
        filter is_export (fst (main_export_env h)) = [ExportGltf env_gltf_args])
   \<and> (filter is_export (fst (main_export_char h)) = [] \<or>
      filter is_export (fst (main_export_char h)) = [ExportGltf char_gltf_args])
   \<and> (snd (main_export_char h) = Exit 0 \<longrightarrow>
        filter is_export (fst (main_export_char h)) = [ExportGltf char_gltf_args])
   \<and> (filter is_export (fst (main_export_rt_scene h)) = [] \<or>
      filter is_export (fst (main_export_rt_scene h)) = [ExportGltf rt_gltf_args])
   \<and> (snd (main_export_rt_scene h) = Exit 0 \<longrightarrow>
        filter is_export (fst (main_export_rt_scene h)) = [ExportGltf rt_gltf_args])
   \<and> list_all (\<lambda>args. map_of args ''export_format'' = Some (S ''GLB'') \<and>
                       map_of args ''use_visible'' = Some (B True) \<and>
                       map_of args ''export_draco_mesh_compression_enable'' = Some (B False))
        [env_gltf_args, char_gltf_args, rt_gltf_args]"
proof -
  have "list_all (\<lambda>args. map_of args ''export_format'' = Some (S ''GLB'') \<and>
                       map_of args ''use_visible'' = Some (B True) \<and>
                       map_of args ''export_draco_mesh_compression_enable'' = Some (B False))
        [env_gltf_args, char_gltf_args, rt_gltf_args]"
    by (simp add: env_gltf_args_def char_gltf_args_def rt_gltf_args_def)
  then show ?thesis
    using exit0_env [of h] exit0_char [of h] exit0_rt [of h]
    by (simp only: exports_env exports_char exports_rt) auto
qed

lemma ex_host_simps:
  "read_homefile_result ex_host = None" "open_mainfile_result ex_host = None"
  "makedirs_result ex_host = None" "export_result ex_host = None"
  "getsize_result ex_host = Inr 1234567" "path_exists ex_host p"
  by (simp_all add: ex_host_def)

lemma truediv_MB_small: "n < 2 ^ 53 \<Longrightarrow> truediv_MB n = Inr (of_nat n / (1024 * 1024))"
  by (simp add: truediv_MB_def round53_def)

theorem export_invoked_once_witness:
  "snd (main_export_env ex_host) = Exit 0
   \<and> filter is_export (fst (main_export_env ex_host)) = [ExportGltf env_gltf_args]
   \<and> snd (main_export_rt_scene ex_host) = Exit 0
   \<and> filter is_export (fst (main_export_rt_scene ex_host)) = [ExportGltf rt_gltf_args]
   \<and> snd (main_export_char ex_host) = Exit 0
   \<and> filter is_export (fst (main_export_char ex_host)) = [ExportGltf char_gltf_args]"
proof -
  have "snd (main_export_env ex_host) = Exit 0"
    by (simp add: main_export_env_def snd_finish snd_export_environment snd_env_summary
          ex_host_simps truediv_MB_small)
  moreover have "snd (main_export_rt_scene ex_host) = Exit 0"
    by (simp add: main_export_rt_scene_def snd_guarded_main snd_export_rt_scene snd_rt_prepare
          snd_rt_summary ex_host_simps truediv_MB_small)
  moreover have "snd (main_export_char ex_host) = Exit 0"
    by (simp add: main_export_char_def snd_guarded_main snd_export_character snd_char_summary
          ex_host_simps truediv_MB_small char_skinned_meshes_def is_skinned_mesh_def
          ex_host_def ex_obj_def)
  ultimately show ?thesis
    using export_invoked_once [of ex_host] by simp
qed

lemma status_raised:
  "(case raised f of SystemExit x \<Rightarrow> Exit x | _ \<Rightarrow> Exit 1) = Exit 1"
  "(case raised f of SystemExit x \<Rightarrow> Exit x | _ \<Rightarrow> Exit (Suc 0)) = Exit (Suc 0)"
  "(case raised f of SystemExit x \<Rightarrow> Exit x | e \<Rightarrow> Uncaught e) = Uncaught (raised f)"
  by (cases f; simp)+

section \<open>The guard of export\_char.py\<close>

lemma char_skinned_meshes_empty:
  "(char_skinned_meshes h = []) =
     (\<not> list_ex (\<lambda>obj. type obj = ''MESH'' \<and>
                   list_ex (\<lambda>m. mod_type m = ''ARMATURE'') (modifiers obj)) (data_objects h))"
  by (auto simp: char_skinned_meshes_def is_skinned_mesh_def list_ex_iff filter_empty_conv)

text \<open>
  C10. If the file that \<open>export_char.py\<close> loads has no object of type \<open>MESH\<close> with a
  modifier of type \<open>ARMATURE\<close>, the run ends with status 1 and never invokes the export,
  so it writes no GLB file.
\<close>

theorem no_skinned_mesh_no_export:
  assumes "\<not> list_ex (\<lambda>obj. type obj = ''MESH'' \<and>
                       list_ex (\<lambda>m. mod_type m = ''ARMATURE'') (modifiers obj)) (data_objects h)"
  shows "snd (main_export_char h) = Exit 1 \<and> filter is_export (fst (main_export_char h)) = []"
proof -
  have none: "char_skinned_meshes h = []"
    using assms by (simp add: char_skinned_meshes_empty)
  have "snd (main_export_char h) = Exit 1"
    by (cases "open_mainfile_result h")
       (auto simp: main_export_char_def snd_guarded_main snd_export_character none status_raised
             split: fault.splits)
  then show ?thesis
    by (simp add: exports_char none)
qed

theorem no_skinned_mesh_no_export_witness:
  "\<not> list_ex (\<lambda>obj. type obj = ''MESH'' \<and>
                list_ex (\<lambda>m. mod_type m = ''ARMATURE'') (modifiers obj))
       (data_objects (ex_host\<lparr>data_objects := [ex_obj ''Desk'' ''MESH'' []]\<rparr>))
   \<and> snd (main_export_char (ex_host\<lparr>data_objects := [ex_obj ''Desk'' ''MESH'' []]\<rparr>)) = Exit 1
   \<and> filter is_export (fst (main_export_char (ex_host\<lparr>data_objects := [ex_obj ''Desk'' ''MESH'' []]\<rparr>))) = []"
proof -
  have h: "\<not> list_ex (\<lambda>obj. type obj = ''MESH'' \<and>
                list_ex (\<lambda>m. mod_type m = ''ARMATURE'') (modifiers obj))
       (data_objects (ex_host\<lparr>data_objects := [ex_obj ''Desk'' ''MESH'' []]\<rparr>))"
    by (simp add: ex_obj_def)
  show ?thesis
    using h no_skinned_mesh_no_export [OF h] by simp
qed

section \<open>Exit status\<close>

lemma fallible_classes:
  "is_load e \<Longrightarrow> is_fallible e" "is_makedirs e \<Longrightarrow> is_fallible e"
  "is_export e \<Longrightarrow> is_fallible e" "is_getsize e \<Longrightarrow> is_fallible e"
  by (cases e; simp)+

lemma fault_raised_fallible: "fault_raised h t = fault_raised h (fallible t)"
proof -
  have "(ReadHomefile \<in> set (fallible t)) = (ReadHomefile \<in> set t)"
    by (auto simp: fallible_def)
  moreover have "list_ex is_load (fallible t) = list_ex is_load t"
    by (auto simp: fallible_def list_ex_iff fallible_classes)
  moreover have "list_ex is_makedirs (fallible t) = list_ex is_makedirs t"
    by (auto simp: fallible_def list_ex_iff fallible_classes)
  moreover have "list_ex is_export (fallible t) = list_ex is_export t"
    by (auto simp: fallible_def list_ex_iff fallible_classes)
  moreover have "list_ex is_getsize (fallible t) = list_ex is_getsize t"
    by (auto simp: fallible_def list_ex_iff fallible_classes)
  ultimately show ?thesis
    by (simp add: fault_raised_def)
qed

lemma truediv_MB_cases:
  "(case truediv_MB n of Inl e \<Rightarrow> Inl e | Inr x \<Rightarrow> Inr ()) =
     (if 2 ^ 1044 \<le> round53 n
      then Inl (Exception ''integer division result too large for a float'') else Inr ())"
  by (simp add: truediv_MB_def)

lemma status_rt:
  "snd (main_export_rt_scene h) =
     (if fault_raised h (fst (main_export_rt_scene h)) \<or> \<not> path_exists h RT_SCENE_FILE
      then Exit 1 else Exit 0)"
  apply (subst fault_raised_fallible)
  apply (simp only: main_export_rt_scene_def fallible_guarded_main snd_guarded_main
      fallible_export_rt_scene snd_export_rt_scene snd_rt_prepare fallible_rt_prepare
      snd_rt_summary truediv_MB_cases)
  apply (cases "read_homefile_result h"; cases "open_mainfile_result h";
         cases "makedirs_result h"; cases "export_result h"; cases "getsize_result h")
  apply (auto simp: fault_raised_def status_raised split: fault.splits)
  done


lemma status_char:
  "snd (main_export_char h) =
     (if fault_raised h (fst (main_export_char h)) \<or> char_skinned_meshes h = []
      then Exit 1 else Exit 0)"
  apply (subst fault_raised_fallible)
  apply (simp only: main_export_char_def fallible_guarded_main snd_guarded_main
      fallible_export_character snd_export_character snd_char_summary truediv_MB_cases)
  apply (cases "open_mainfile_result h"; cases "export_result h"; cases "getsize_result h")
  apply (auto simp: fault_raised_def status_raised split: fault.splits)
  done

lemma status_env:
  "(\<not> fault_raised h (fst (main_export_env h)) \<longrightarrow> snd (main_export_env h) = Exit 0)
   \<and> (open_mainfile_result h = Some (Error s) \<longrightarrow> snd (main_export_env h) = Exit 1)
   \<and> (open_mainfile_result h = None \<and> export_result h = Some (Error s) \<longrightarrow>
        snd (main_export_env h) = Exit 1)"
  apply (subst fault_raised_fallible)
  apply (simp only: main_export_env_def fst_finish snd_finish
      fallible_export_environment snd_export_environment snd_env_summary truediv_MB_cases)
  apply (cases "open_mainfile_result h"; cases "export_result h"; cases "getsize_result h")
  apply (auto simp: fault_raised_def status_raised split: fault.splits)
  done

lemmas message_simps =
  io_simps printed_last_def NL_def CROSS_def WARNING_def startswith_def

lemma error_message_env:
  assumes "snd (main_export_env h) = Exit 1"
  shows "list_ex is_error_message (printed_last (fst (main_export_env h)))"
proof -
  consider (load) s where "open_mainfile_result h = Some (Error s)"
    | (export) s where "open_mainfile_result h = None" "export_result h = Some (Error s)"
    using assms
    by (cases "open_mainfile_result h"; cases "export_result h"; cases "getsize_result h")
       (auto simp: main_export_env_def snd_finish snd_export_environment snd_env_summary
             truediv_MB_cases status_raised split: fault.splits if_splits)
  then show ?thesis
  proof cases
    case load
    then show ?thesis
      by (simp add: main_export_env_def fst_finish export_environment_def env_load_def
            message_simps del: block.simps)
  next
    case export
    then show ?thesis
      by (simp add: main_export_env_def fst_finish export_environment_def snd_env_load
            snd_env_verify snd_env_prepare env_export_def message_simps del: block.simps)
  qed
qed

lemma error_message_char:
  assumes "snd (main_export_char h) = Exit 1"
  shows "list_ex is_error_message (printed_last (fst (main_export_char h)))"
proof (cases "open_mainfile_result h")
  case (Some f)
  then show ?thesis
    by (cases f)
       (simp_all add: main_export_char_def fst_guarded_main export_character_def char_load_def
          message_simps del: block.simps)
next
  case None
  show ?thesis
  proof (cases "char_skinned_meshes h = []")
    case True
    with None show ?thesis
      by (simp add: main_export_char_def fst_guarded_main export_character_def char_load_def
            char_verify_def message_simps takeWhile_append2 del: block.simps)
  next
    case False
    note skinned = this
    show ?thesis
    proof (cases "export_result h")
      case (Some f)
      with None skinned show ?thesis
        by (cases f)
           (simp_all add: main_export_char_def fst_guarded_main export_character_def
              snd_char_load snd_char_verify char_export_def message_simps del: block.simps)
    next
      case no_export_fault: None
      show ?thesis
      proof (cases "getsize_result h")
        case (Inl f)
        with None skinned no_export_fault show ?thesis
          by (cases f)
             (simp_all add: main_export_char_def fst_guarded_main export_character_def
                snd_char_load snd_char_verify snd_char_export char_summary_def message_simps
                del: block.simps)
      next
        case (Inr n)
        with None skinned no_export_fault assms show ?thesis
          by (cases "2 ^ 1044 \<le> round53 n")
             (simp_all add: main_export_char_def fst_guarded_main snd_guarded_main
                export_character_def snd_char_load snd_char_verify snd_char_export
                char_summary_def truediv_MB_def message_simps del: block.simps)
      qed
    qed
  qed
qed


lemma error_message_rt:
  assumes "snd (main_export_rt_scene h) = Exit 1"
  shows "list_ex is_error_message (printed_last (fst (main_export_rt_scene h)))"
proof (cases "read_homefile_result h")
  case (Some f)
  then show ?thesis
    by (cases f)
       (simp_all add: main_export_rt_scene_def fst_guarded_main export_rt_scene_def rt_load_def
          message_simps del: block.simps)
next
  case None
  note homefile = this
  show ?thesis
  proof (cases "path_exists h RT_SCENE_FILE")
    case False
    with homefile show ?thesis
      by (simp add: main_export_rt_scene_def fst_guarded_main export_rt_scene_def rt_load_def
            message_simps del: block.simps)
  next
    case True
    note found = this
    show ?thesis
    proof (cases "open_mainfile_result h")
      case (Some f)
      with homefile found show ?thesis
        by (cases f)
           (simp_all add: main_export_rt_scene_def fst_guarded_main export_rt_scene_def
              rt_load_def message_simps del: block.simps)
    next
      case None
      note loaded = this
      have pre: "snd (rt_load h) = Inr ()"
        using homefile found loaded by (simp add: snd_rt_load)
      note before = pre snd_rt_hide_working snd_rt_linked_data snd_rt_remove_duplicates
        snd_rt_verify
      show ?thesis
      proof (cases "snd (rt_prepare h)")
        case (Inl e)
        then obtain f where dir: "\<not> path_exists h (dirname RT_OUTPUT_GLB)"
          and mk: "makedirs_result h = Some f"
          by (auto simp: snd_rt_prepare split: if_splits option.splits)
        show ?thesis
          using dir mk
          by (cases f)
             (simp_all add: main_export_rt_scene_def fst_guarded_main export_rt_scene_def
                before rt_prepare_def Let_def case_prod_beta message_simps del: block.simps)
      next
        case (Inr u)
        note prepared = this
        show ?thesis
        proof (cases "export_result h")
          case (Some f)
          with prepared show ?thesis
            by (cases f)
               (simp_all add: main_export_rt_scene_def fst_guarded_main export_rt_scene_def
                  before rt_export_def message_simps del: block.simps)
        next
          case None
          note exported = this
          have ex: "snd (rt_export h) = Inr ()"
            using exported by (simp add: snd_rt_export)
          show ?thesis
          proof (cases "getsize_result h")
            case (Inl f)
            with prepared ex show ?thesis
              by (cases f)
                 (simp_all add: main_export_rt_scene_def fst_guarded_main export_rt_scene_def
                    before rt_summary_def Let_def message_simps del: block.simps)
          next
            case (Inr n)
            with prepared ex assms homefile found loaded exported show ?thesis
              by (cases "2 ^ 1044 \<le> round53 n")
                 (simp_all add: main_export_rt_scene_def fst_guarded_main snd_guarded_main
                    export_rt_scene_def snd_export_rt_scene before rt_summary_def Let_def
                    truediv_MB_def message_simps del: block.simps)
          qed
        qed
      qed
    qed
  qed
qed

text \<open>
  C1, as amended. In \<open>export_rt_scene.py\<close> and \<open>export_char.py\<close> every run ends with
  status 0 or 1: the status is 1 exactly when a call raised an error or was interrupted,
  or the guard of the script fired (the input file of \<open>export_rt_scene.py\<close> does not
  exist, \<open>export_char.py\<close> found no skinned mesh), and 0 otherwise. In \<open>export_env.py\<close>
  a run in which no call raises ends with status 0, and an error raised by the file load
  or by the export call ends it with status 1. In all three scripts a run that ends with
  status 1 has printed an error message after its last call.
\<close>

theorem exit_status:
  "snd (main_export_rt_scene h) =
     (if fault_raised h (fst (main_export_rt_scene h)) \<or> \<not> path_exists h RT_SCENE_FILE
      then Exit 1 else Exit 0)
   \<and> snd (main_export_char h) =
     (if fault_raised h (fst (main_export_char h)) \<or>
         \<not> list_ex (\<lambda>obj. type obj = ''MESH'' \<and>
                       list_ex (\<lambda>m. mod_type m = ''ARMATURE'') (modifiers obj)) (data_objects h)
      then Exit 1 else Exit 0)
   \<and> (\<not> fault_raised h (fst (main_export_env h)) \<longrightarrow> snd (main_export_env h) = Exit 0)
   \<and> (open_mainfile_result h = Some (Error s) \<longrightarrow> snd (main_export_env h) = Exit 1)
   \<and> (open_mainfile_result h = None \<and> export_result h = Some (Error s) \<longrightarrow>
        snd (main_export_env h) = Exit 1)
   \<and> (snd (main_export_rt_scene h) = Exit 1 \<longrightarrow>
        list_ex is_error_message (printed_last (fst (main_export_rt_scene h))))
   \<and> (snd (main_export_char h) = Exit 1 \<longrightarrow>
        list_ex is_error_message (printed_last (fst (main_export_char h))))
   \<and> (snd (main_export_env h) = Exit 1 \<longrightarrow>
        list_ex is_error_message (printed_last (fst (main_export_env h))))"
proof -
  show ?thesis
    using char_skinned_meshes_empty [of h] status_rt [of h] status_char [of h] status_env [of h s]
      error_message_rt [of h] error_message_char [of h] error_message_env [of h]
    by simp
qed


theorem exit_status_witness:
  "\<not> fault_raised ex_host (fst (main_export_env ex_host))
   \<and> snd (main_export_env ex_host) = Exit 0
   \<and> snd (main_export_rt_scene ex_host) = Exit 0
   \<and> snd (main_export_char ex_host) = Exit 0
   \<and> fault_raised (ex_host\<lparr>export_result := Some (Error ''disk full'')\<rparr>)
        (fst (main_export_rt_scene (ex_host\<lparr>export_result := Some (Error ''disk full'')\<rparr>)))
   \<and> snd (main_export_rt_scene (ex_host\<lparr>export_result := Some (Error ''disk full'')\<rparr>)) = Exit 1
   \<and> snd (main_export_char (ex_host\<lparr>export_result := Some (Error ''disk full'')\<rparr>)) = Exit 1
   \<and> snd (main_export_env (ex_host\<lparr>export_result := Some (Error ''disk full'')\<rparr>)) = Exit 1
   \<and> list_ex is_error_message (printed_last
        (fst (main_export_rt_scene (ex_host\<lparr>export_result := Some (Error ''disk full'')\<rparr>))))
   \<and> list_ex is_error_message (printed_last
        (fst (main_export_char (ex_host\<lparr>export_result := Some (Error ''disk full'')\<rparr>))))
   \<and> list_ex is_error_message (printed_last
        (fst (main_export_env (ex_host\<lparr>export_result := Some (Error ''disk full'')\<rparr>))))"
proof -
  let ?bad = "ex_host\<lparr>export_result := Some (Error ''disk full'')\<rparr>"
  have skinned: "list_ex (\<lambda>obj. type obj = ''MESH'' \<and>
      list_ex (\<lambda>m. mod_type m = ''ARMATURE'') (modifiers obj)) (data_objects ex_host)"
    by (simp add: ex_host_def ex_obj_def)
  have small: "round53 1234567 = 1234567"
    by (simp add: round53_def)
  have ok: "\<not> fault_raised ex_host (fst (main_export_env ex_host))"
    "\<not> fault_raised ex_host (fst (main_export_rt_scene ex_host))"
    "\<not> fault_raised ex_host (fst (main_export_char ex_host))"
    by (subst fault_raised_fallible,
        simp add: main_export_env_def main_export_rt_scene_def main_export_char_def fst_finish
          fallible_guarded_main fallible_export_environment fallible_export_rt_scene
          fallible_export_character fallible_rt_prepare snd_rt_prepare fault_raised_def
          ex_host_simps small)+
  have bad: "fault_raised ?bad (fst (main_export_rt_scene ?bad))"
    "fault_raised ?bad (fst (main_export_char ?bad))"
    using skinned
    by (subst fault_raised_fallible,
        simp add: main_export_rt_scene_def main_export_char_def
          fallible_guarded_main fallible_export_rt_scene
          fallible_export_character fallible_rt_prepare snd_rt_prepare fault_raised_def
          char_skinned_meshes_empty ex_host_simps)+
  show ?thesis
    using ok bad skinned exit_status [of ex_host "''disk full''"]
      exit_status [of ?bad "''disk full''"]
    by (simp add: ex_host_simps)
qed

text \<open>
  C1 as stated fails in \<open>export_char.py\<close>: on a file without objects no call raises, and
  the run ends with status 1.
\<close>

theorem exit_status_counterexample:
  "\<not> fault_raised (ex_host\<lparr>data_objects := []\<rparr>)
        (fst (main_export_char (ex_host\<lparr>data_objects := []\<rparr>)))
   \<and> snd (main_export_char (ex_host\<lparr>data_objects := []\<rparr>)) = Exit 1"
proof -
  let ?h = "ex_host\<lparr>data_objects := []\<rparr>"
  have "\<not> fault_raised ?h (fst (main_export_char ?h))"
    by (subst fault_raised_fallible)
       (simp add: main_export_char_def fallible_guarded_main fallible_export_character
          fault_raised_def ex_host_simps char_skinned_meshes_def)
  moreover have "snd (main_export_char ?h) = Exit 1"
    by (subst status_char) (simp add: char_skinned_meshes_def)
  ultimately show ?thesis by simp
qed

text \<open>
  \<open>export_env.py\<close> has no handler around its function: an error of the size readout, and
  an interrupt, leave the script uncaught.
\<close>

lemma export_env_uncaught:
  "open_mainfile_result h = None \<Longrightarrow> export_result h = None \<Longrightarrow> getsize_result h = Inl f \<Longrightarrow>
     snd (main_export_env h) = Uncaught (raised f)"
  "open_mainfile_result h = Some Interrupt \<Longrightarrow> snd (main_export_env h) = Uncaught KeyboardInterrupt"
  by (simp_all add: main_export_env_def snd_finish snd_export_environment snd_env_summary
        status_raised)

section \<open>The phases that a run gets through\<close>

lemma trace_env_loaded:
  assumes "open_mainfile_result h = None"
  shows "fst (main_export_env h) =
           fst (env_load h) @ fst (env_verify h) @ fst (env_prepare h) @ fst (env_export h) @
           (if export_result h = None then fst (env_summary h) else [])"
  using assms
  by (simp add: main_export_env_def fst_finish export_environment_def fst_block_Cons block_single
        snd_env_load snd_env_verify snd_env_prepare snd_env_export
        del: block.simps split: option.splits fault.splits)

lemma trace_char_loaded:
  assumes "open_mainfile_result h = None"
  shows "fst (export_character h) =
           fst (char_load h) @ fst (char_verify h) @
           (if char_skinned_meshes h = [] then []
            else fst (char_export h) @
                 (if export_result h = None then fst (char_summary h) else []))"
  using assms
  by (simp add: export_character_def fst_block_Cons block_single
        snd_char_load snd_char_verify snd_char_export
        del: block.simps split: option.splits fault.splits)

lemma trace_rt_loaded:
  assumes "read_homefile_result h = None" "path_exists h RT_SCENE_FILE"
    "open_mainfile_result h = None"
  shows "fst (export_rt_scene h) =
           fst (rt_load h) @ fst (rt_hide_working h) @ fst (rt_linked_data h) @
           fst (rt_remove_duplicates h) @ fst (rt_verify h) @ fst (rt_prepare h) @
           (if snd (rt_prepare h) = Inr ()
            then fst (rt_export h) @
                 (if export_result h = None then fst (rt_summary h) else [])
            else [])"
  using assms
  by (simp add: export_rt_scene_def fst_block_Cons block_single
        snd_rt_load snd_rt_hide_working snd_rt_linked_data snd_rt_remove_duplicates
        snd_rt_verify snd_rt_export
        del: block.simps split: option.splits fault.splits sum.splits)

lemma set_guarded_main: "set (fst m) \<subseteq> set (fst (guarded_main m))"
  by (simp add: fst_guarded_main)

section \<open>The diagnostic counts\<close>

lemma filter_skinned:
  "filter is_skinned_mesh objs =
     filter (\<lambda>obj. type obj = ''MESH'' \<and>
                   list_ex (\<lambda>m. mod_type m = ''ARMATURE'') (modifiers obj)) objs"
  by (rule filter_cong) (auto simp: is_skinned_mesh_def)

text \<open>
  C6. Once its file is loaded, \<open>export_env.py\<close> prints as mesh, light and camera counts
  the numbers of loaded objects of type \<open>MESH\<close>, \<open>LIGHT\<close> and \<open>CAMERA\<close>, and
  \<open>export_char.py\<close> prints as skinned-mesh count the number of loaded objects of type
  \<open>MESH\<close> with at least one modifier of type \<open>ARMATURE\<close>, then the number of objects of
  type \<open>ARMATURE\<close> and the number of actions.
\<close>

theorem diagnostic_counts:
  assumes "open_mainfile_result h = None"
  shows "Print (''   - Meshes: '' @
           str_nat (length (filter (\<lambda>obj. type obj = ''MESH'') (data_objects h))))
           \<in> set (fst (main_export_env h))
   \<and> Print (''   - Lights: '' @
           str_nat (length (filter (\<lambda>obj. type obj = ''LIGHT'') (data_objects h))))
           \<in> set (fst (main_export_env h))
   \<and> Print (''   - Cameras: '' @
           str_nat (length (filter (\<lambda>obj. type obj = ''CAMERA'') (data_objects h))))
           \<in> set (fst (main_export_env h))
   \<and> Print (''   - SkinnedMeshes: '' @
           str_nat (length (filter (\<lambda>obj. type obj = ''MESH'' \<and>
               list_ex (\<lambda>m. mod_type m = ''ARMATURE'') (modifiers obj)) (data_objects h))))
           \<in> set (fst (main_export_char h))
   \<and> Print (''   - Armatures: '' @
           str_nat (length (filter (\<lambda>obj. type obj = ''ARMATURE'') (data_objects h))))
           \<in> set (fst (main_export_char h))
   \<and> Print (''   - Animations: '' @ str_nat (length (data_actions h)))
           \<in> set (fst (main_export_char h))"
proof -
  have env: "set (fst (env_verify h)) \<subseteq> set (fst (main_export_env h))"
    by (auto simp: trace_env_loaded [OF assms])
  have char: "set (fst (char_verify h)) \<subseteq> set (fst (main_export_char h))"
    using set_guarded_main [of "export_character h"]
    by (auto simp: main_export_char_def trace_char_loaded [OF assms])
  have "Print (''   - Meshes: '' @
           str_nat (length (filter (\<lambda>obj. type obj = ''MESH'') (data_objects h))))
           \<in> set (fst (env_verify h))"
     and "Print (''   - Lights: '' @
           str_nat (length (filter (\<lambda>obj. type obj = ''LIGHT'') (data_objects h))))
           \<in> set (fst (env_verify h))"
     and "Print (''   - Cameras: '' @
           str_nat (length (filter (\<lambda>obj. type obj = ''CAMERA'') (data_objects h))))
           \<in> set (fst (env_verify h))"
    by (simp_all add: env_verify_def env_meshes_def env_lights_def env_cameras_def
          env_all_objects_def io_simps del: block.simps)
  moreover have "Print (''   - SkinnedMeshes: '' @
           str_nat (length (filter (\<lambda>obj. type obj = ''MESH'' \<and>
               list_ex (\<lambda>m. mod_type m = ''ARMATURE'') (modifiers obj)) (data_objects h))))
           \<in> set (fst (char_verify h))"
     and "Print (''   - Armatures: '' @
           str_nat (length (filter (\<lambda>obj. type obj = ''ARMATURE'') (data_objects h))))
           \<in> set (fst (char_verify h))"
     and "Print (''   - Animations: '' @ str_nat (length (data_actions h)))
           \<in> set (fst (char_verify h))"
    by (simp_all add: char_verify_def char_skinned_meshes_def char_armatures_def
          char_animations_def filter_skinned io_simps del: block.simps)
  ultimately show ?thesis
    using env char by blast
qed

lemma str_nat_digit: "n < 10 \<Longrightarrow> str_nat n = [digit n]"
  by (simp add: str_nat.simps)

theorem diagnostic_counts_witness:
  "open_mainfile_result ex_host = None
   \<and> Print ''   - Meshes: 3'' \<in> set (fst (main_export_env ex_host))
   \<and> Print ''   - Lights: 1'' \<in> set (fst (main_export_env ex_host))
   \<and> Print ''   - Cameras: 1'' \<in> set (fst (main_export_env ex_host))
   \<and> Print ''   - SkinnedMeshes: 1'' \<in> set (fst (main_export_char ex_host))
   \<and> Print ''   - Armatures: 1'' \<in> set (fst (main_export_char ex_host))
   \<and> Print ''   - Animations: 1'' \<in> set (fst (main_export_char ex_host))"
proof -
  have h: "open_mainfile_result ex_host = None"
    by (simp add: ex_host_def)
  have "data_objects ex_host =
      [ex_obj ''Body'' ''MESH'' [Modifier ''ARMATURE''], ex_obj ''Desk'' ''MESH'' [],
       ex_obj ''Desk.001'' ''MESH'' [], ex_obj ''Rig'' ''ARMATURE'' [],
       ex_obj ''Sun'' ''LIGHT'' [], ex_obj ''Cam'' ''CAMERA'' []]"
    and "data_actions ex_host = [''Idle'']"
    by (simp_all add: ex_host_def)
  then show ?thesis
    using h diagnostic_counts [OF h]
    by (simp add: ex_obj_def str_nat_digit digit_def)
qed

section \<open>The objects that will be exported\<close>

text \<open>
  C8. The \<open>Will export\<close> line of \<open>export_env.py\<close> counts the loaded objects by their own
  \<open>hide_viewport\<close> and \<open>hide_render\<close> flags only: whatever collections the file has, and
  so whether or not a \<open>WORKING\<close> collection gets hidden, the line printed is the one with
  the numbers of objects, and of meshes among them, that have neither flag set.
\<close>

theorem will_export_counts:
  assumes "open_mainfile_result h = None"
  shows "Print (''   Will export '' @
           str_nat (length (filter (\<lambda>obj. \<not> hide_viewport obj \<and> \<not> hide_render obj)
                      (data_objects h))) @
           '' objects ('' @
           str_nat (length (filter (\<lambda>obj. type obj = ''MESH'')
                      (filter (\<lambda>obj. \<not> hide_viewport obj \<and> \<not> hide_render obj)
                         (data_objects h)))) @
           '' meshes)'')
         \<in> set (fst (main_export_env (h\<lparr>data_collections := cs\<rparr>)))"
proof -
  let ?h = "h\<lparr>data_collections := cs\<rparr>"
  have loaded: "open_mainfile_result ?h = None"
    using assms by simp
  have "set (fst (env_prepare ?h)) \<subseteq> set (fst (main_export_env ?h))"
    by (auto simp: trace_env_loaded [OF loaded])
  moreover have "Print (''   Will export '' @
           str_nat (length (filter (\<lambda>obj. \<not> hide_viewport obj \<and> \<not> hide_render obj)
                      (data_objects h))) @
           '' objects ('' @
           str_nat (length (filter (\<lambda>obj. type obj = ''MESH'')
                      (filter (\<lambda>obj. \<not> hide_viewport obj \<and> \<not> hide_render obj)
                         (data_objects h)))) @
           '' meshes)'')
         \<in> set (fst (env_prepare ?h))"
    by (simp add: env_prepare_def env_export_objects_def env_export_meshes_def
          env_all_objects_def io_simps case_prod_beta del: block.simps)
  ultimately show ?thesis by blast
qed

theorem will_export_counts_witness:
  "open_mainfile_result ex_host = None
   \<and> Print ''   Will export 6 objects (3 meshes)''
       \<in> set (fst (main_export_env (ex_host\<lparr>data_collections := data_collections ex_host\<rparr>)))
   \<and> Print ''   Will export 6 objects (3 meshes)''
       \<in> set (fst (main_export_env (ex_host\<lparr>data_collections := []\<rparr>)))
   \<and> fst (snd (hide_working_env (unicode_upper ex_host) (data_collections ex_host))) =
       [ex_collection ''EXPORT'' [''Body'', ''Desk'', ''Rig'', ''Sun'', ''Cam''],
        (ex_collection ''Working'' [''Desk.001''])\<lparr>hide_viewport := True, hide_render := True\<rparr>]"
proof -
  have h: "open_mainfile_result ex_host = None"
    by (simp add: ex_host_def)
  have objs: "data_objects ex_host =
      [ex_obj ''Body'' ''MESH'' [Modifier ''ARMATURE''], ex_obj ''Desk'' ''MESH'' [],
       ex_obj ''Desk.001'' ''MESH'' [], ex_obj ''Rig'' ''ARMATURE'' [],
       ex_obj ''Sun'' ''LIGHT'' [], ex_obj ''Cam'' ''CAMERA'' []]"
    by (simp add: ex_host_def)
  have hidden: "fst (snd (hide_working_env (unicode_upper ex_host) (data_collections ex_host))) =
       [ex_collection ''EXPORT'' [''Body'', ''Desk'', ''Rig'', ''Sun'', ''Cam''],
        (ex_collection ''Working'' [''Desk.001''])\<lparr>hide_viewport := True, hide_render := True\<rparr>]"
    by (simp add: ex_host_def ex_collection_def startswith_def is_ascii_def ascii_upper_def)
  show ?thesis
    using h hidden will_export_counts [OF h, of "data_collections ex_host"]
      will_export_counts [OF h, of "[]"]
    by (simp add: objs ex_obj_def str_nat_digit digit_def)
qed

section \<open>The file size\<close>

lemma list_ex_filter: "list_ex P t = (filter P t \<noteq> [])"
  by (simp add: list_ex_iff filter_empty_conv)

lemma round_half_even_near:
  assumes "0 \<le> y"
  shows "\<bar>y - of_nat (round_half_even y)\<bar> \<le> 1 / 2"
proof -
  define f where "f = floor y"
  define d where "d = y - of_int f"
  have f0: "0 \<le> f"
    using assms by (simp add: f_def)
  have d0: "0 \<le> d" and d1: "d < 1"
    unfolding d_def f_def by linarith+
  have y: "y = of_int f + d"
    by (simp add: d_def)
  have r: "round_half_even y =
      nat (if d < 1 / 2 then f else if 1 / 2 < d then f + 1 else if even f then f else f + 1)"
    by (simp only: round_half_even_def Let_def f_def d_def)
  consider "round_half_even y = nat f" "d \<le> 1 / 2"
    | "round_half_even y = nat (f + 1)" "1 / 2 \<le> d"
    unfolding r by (cases "d < 1 / 2"; cases "1 / 2 < d"; cases "even f") auto
  then show ?thesis
  proof cases
    case 1
    have "(of_nat (nat f) :: rat) = of_int f"
      using f0 by simp
    with 1 d0 show ?thesis
      by (simp add: y)
  next
    case 2
    have "(of_nat (nat (f + 1)) :: rat) = of_int f + 1"
      using f0 by simp
    with 2 d1 show ?thesis
      by (simp add: y abs_if)
  qed
qed

lemma summary_prints:
  assumes "getsize_result h = Inr n" "n < 2 ^ 53"
  shows "GetSize ENV_OUTPUT_GLB \<in> set (fst (env_summary h))"
    "Print (''File size: '' @ format_2f (of_nat n / (1024 * 1024)) @ '' MB'')
       \<in> set (fst (env_summary h))"
    "GetSize CHAR_OUTPUT_GLB \<in> set (fst (char_summary h))"
    "Print (''File size: '' @ format_2f (of_nat n / (1024 * 1024)) @ '' MB'')
       \<in> set (fst (char_summary h))"
    "GetSize RT_OUTPUT_GLB \<in> set (fst (rt_summary h))"
    "Print (''File size: '' @ format_2f (of_nat n / (1024 * 1024)) @ '' MB'')
       \<in> set (fst (rt_summary h))"
  using assms
  by (simp_all add: env_summary_def char_summary_def rt_summary_def io_simps Let_def
        truediv_MB_small)

text \<open>
  C7. After an export that succeeded, each script reads the size in bytes of its output
  file and prints it in megabytes: the byte count divided by \<open>1024 * 1024\<close>, written
  with two decimal places, which is the quotient rounded to the nearest hundredth. This
  is for a size below \<open>2 ^ 53\<close> bytes, where the division is exact.
\<close>

theorem file_size_printed:
  assumes "export_result h = None" and "getsize_result h = Inr n" and "n < 2 ^ 53"
  shows "(list_ex is_export (fst (main_export_env h)) \<longrightarrow>
            GetSize ENV_OUTPUT_GLB \<in> set (fst (main_export_env h)) \<and>
            Print (''File size: '' @ format_2f (of_nat n / (1024 * 1024)) @ '' MB'')
              \<in> set (fst (main_export_env h)))
   \<and> (list_ex is_export (fst (main_export_char h)) \<longrightarrow>
            GetSize CHAR_OUTPUT_GLB \<in> set (fst (main_export_char h)) \<and>
            Print (''File size: '' @ format_2f (of_nat n / (1024 * 1024)) @ '' MB'')
              \<in> set (fst (main_export_char h)))
   \<and> (list_ex is_export (fst (main_export_rt_scene h)) \<longrightarrow>
            GetSize RT_OUTPUT_GLB \<in> set (fst (main_export_rt_scene h)) \<and>
            Print (''File size: '' @ format_2f (of_nat n / (1024 * 1024)) @ '' MB'')
              \<in> set (fst (main_export_rt_scene h)))
   \<and> (\<exists>k. format_2f (of_nat n / (1024 * 1024)) =
              str_nat (k div 100) @ ''.'' @ [digit (k mod 100 div 10), digit (k mod 10)] \<and>
            \<bar>of_nat n / (1024 * 1024) * 100 - of_nat k\<bar> \<le> (1 / 2 :: rat))"
proof -
  note sizes = summary_prints [OF assms(2,3)]
  have env: "GetSize ENV_OUTPUT_GLB \<in> set (fst (main_export_env h)) \<and>
      Print (''File size: '' @ format_2f (of_nat n / (1024 * 1024)) @ '' MB'')
        \<in> set (fst (main_export_env h))"
    if "list_ex is_export (fst (main_export_env h))"
  proof -
    from that have "filter is_export (fst (main_export_env h)) \<noteq> []"
      by (simp add: list_ex_iff filter_empty_conv)
    then have "open_mainfile_result h = None"
      by (simp add: exports_env split: if_splits)
    then have "fst (main_export_env h) =
        (fst (env_load h) @ fst (env_verify h) @ fst (env_prepare h) @ fst (env_export h)) @
        fst (env_summary h)"
      using assms(1) by (simp add: trace_env_loaded)
    then show ?thesis
      using sizes(1,2) by (simp only: set_append Un_iff simp_thms)
  qed
  have char: "GetSize CHAR_OUTPUT_GLB \<in> set (fst (main_export_char h)) \<and>
      Print (''File size: '' @ format_2f (of_nat n / (1024 * 1024)) @ '' MB'')
        \<in> set (fst (main_export_char h))"
    if "list_ex is_export (fst (main_export_char h))"
  proof -
    from that have "filter is_export (fst (main_export_char h)) \<noteq> []"
      by (simp add: list_ex_iff filter_empty_conv)
    then have "open_mainfile_result h = None" "char_skinned_meshes h \<noteq> []"
      by (simp_all add: exports_char split: if_splits)
    then have "fst (export_character h) =
        (fst (char_load h) @ fst (char_verify h) @ fst (char_export h)) @ fst (char_summary h)"
      using assms(1) by (simp add: trace_char_loaded)
    then have "set (fst (char_summary h)) \<subseteq> set (fst (main_export_char h))"
      using set_guarded_main [of "export_character h"]
      by (simp only: main_export_char_def set_append) blast
    then show ?thesis
      using sizes(3,4) by (simp only: subset_iff simp_thms)
  qed
  have rt: "GetSize RT_OUTPUT_GLB \<in> set (fst (main_export_rt_scene h)) \<and>
      Print (''File size: '' @ format_2f (of_nat n / (1024 * 1024)) @ '' MB'')
        \<in> set (fst (main_export_rt_scene h))"
    if "list_ex is_export (fst (main_export_rt_scene h))"
  proof -
    from that have "filter is_export (fst (main_export_rt_scene h)) \<noteq> []"
      by (simp add: list_ex_iff filter_empty_conv)
    then have "read_homefile_result h = None" "path_exists h RT_SCENE_FILE"
      "open_mainfile_result h = None" "snd (rt_prepare h) = Inr ()"
      by (simp_all add: exports_rt split: if_splits)
    then have "fst (export_rt_scene h) =
        (fst (rt_load h) @ fst (rt_hide_working h) @ fst (rt_linked_data h) @
         fst (rt_remove_duplicates h) @ fst (rt_verify h) @ fst (rt_prepare h) @
         fst (rt_export h)) @ fst (rt_summary h)"
      using assms(1) by (simp add: trace_rt_loaded)
    then have "set (fst (rt_summary h)) \<subseteq> set (fst (main_export_rt_scene h))"
      using set_guarded_main [of "export_rt_scene h"]
      by (simp only: main_export_rt_scene_def set_append) blast
    then show ?thesis
      using sizes(5,6) by (simp only: subset_iff simp_thms)
  qed
  have "\<bar>of_nat n / (1024 * 1024) * 100 -
          of_nat (round_half_even (of_nat n / (1024 * 1024) * 100))\<bar> \<le> (1 / 2 :: rat)"
    by (rule round_half_even_near) simp
  then have "format_2f (of_nat n / (1024 * 1024)) =
        str_nat (round_half_even (of_nat n / (1024 * 1024) * 100) div 100) @ ''.'' @
          [digit (round_half_even (of_nat n / (1024 * 1024) * 100) mod 100 div 10),
           digit (round_half_even (of_nat n / (1024 * 1024) * 100) mod 10)] \<and>
      \<bar>of_nat n / (1024 * 1024) * 100 -
          of_nat (round_half_even (of_nat n / (1024 * 1024) * 100))\<bar> \<le> (1 / 2 :: rat)"
    by (simp only: format_2f_def Let_def simp_thms)
  then have "\<exists>k. format_2f (of_nat n / (1024 * 1024)) =
              str_nat (k div 100) @ ''.'' @ [digit (k mod 100 div 10), digit (k mod 10)] \<and>
            \<bar>of_nat n / (1024 * 1024) * 100 - of_nat k\<bar> \<le> (1 / 2 :: rat)"
    by (rule exI [of "\<lambda>k. format_2f (of_nat n / (1024 * 1024)) =
              str_nat (k div 100) @ ''.'' @ [digit (k mod 100 div 10), digit (k mod 10)] \<and>
            \<bar>of_nat n / (1024 * 1024) * 100 - of_nat k\<bar> \<le> (1 / 2 :: rat)"
          "round_half_even (of_nat n / (1024 * 1024) * 100)"])
  moreover have "list_ex is_export (fst (main_export_env h)) \<longrightarrow>
      GetSize ENV_OUTPUT_GLB \<in> set (fst (main_export_env h)) \<and>
      Print (''File size: '' @ format_2f (of_nat n / (1024 * 1024)) @ '' MB'')
        \<in> set (fst (main_export_env h))"
    by (rule impI) (rule env)
  moreover have "list_ex is_export (fst (main_export_char h)) \<longrightarrow>
      GetSize CHAR_OUTPUT_GLB \<in> set (fst (main_export_char h)) \<and>
      Print (''File size: '' @ format_2f (of_nat n / (1024 * 1024)) @ '' MB'')
        \<in> set (fst (main_export_char h))"
    by (rule impI) (rule char)
  moreover have "list_ex is_export (fst (main_export_rt_scene h)) \<longrightarrow>
      GetSize RT_OUTPUT_GLB \<in> set (fst (main_export_rt_scene h)) \<and>
      Print (''File size: '' @ format_2f (of_nat n / (1024 * 1024)) @ '' MB'')
        \<in> set (fst (main_export_rt_scene h))"
    by (rule impI) (rule rt)
  ultimately show ?thesis
    by (intro conjI)
qed


lemma format_2f_example: "format_2f (1234567 / 1048576) = ''1.18''"
proof -
  have "\<lfloor>(1234567 / 1048576 * 100 :: rat)\<rfloor> = 117"
    by (rule floor_unique) simp_all
  then have "round_half_even (1234567 / 1048576 * 100) = 118"
    by (simp add: round_half_even_def Let_def)
  then show ?thesis
    by (simp add: format_2f_def Let_def str_nat_digit digit_def)
qed

theorem file_size_printed_witness:
  "export_result ex_host = None \<and> getsize_result ex_host = Inr 1234567
   \<and> (1234567 :: nat) < 2 ^ 53
   \<and> list_ex is_export (fst (main_export_env ex_host))
   \<and> list_ex is_export (fst (main_export_char ex_host))
   \<and> list_ex is_export (fst (main_export_rt_scene ex_host))
   \<and> GetSize ENV_OUTPUT_GLB \<in> set (fst (main_export_env ex_host))
   \<and> Print ''File size: 1.18 MB'' \<in> set (fst (main_export_env ex_host))
   \<and> GetSize CHAR_OUTPUT_GLB \<in> set (fst (main_export_char ex_host))
   \<and> Print ''File size: 1.18 MB'' \<in> set (fst (main_export_char ex_host))
   \<and> GetSize RT_OUTPUT_GLB \<in> set (fst (main_export_rt_scene ex_host))
   \<and> Print ''File size: 1.18 MB'' \<in> set (fst (main_export_rt_scene ex_host))"
proof -
  have a: "export_result ex_host = None" and b: "getsize_result ex_host = Inr 1234567"
    and c: "(1234567 :: nat) < 2 ^ 53"
    by (simp_all add: ex_host_def)
  have skinned: "char_skinned_meshes ex_host \<noteq> []"
    by (simp add: char_skinned_meshes_empty ex_host_def ex_obj_def)
  have e: "list_ex is_export (fst (main_export_env ex_host))"
    "list_ex is_export (fst (main_export_char ex_host))"
    "list_ex is_export (fst (main_export_rt_scene ex_host))"
    using skinned
    by (simp_all add: list_ex_filter exports_env exports_char exports_rt snd_rt_prepare
          ex_host_simps)
  show ?thesis
    using a b c e file_size_printed [OF a b c]
    by (simp add: format_2f_example)
qed

section \<open>The order of the steps\<close>

lemma stages_simps:
  "stages cls [] = []"
  "stages cls (e # t) = (case stage_of cls e of None \<Rightarrow> stages cls t | Some k \<Rightarrow> k # stages cls t)"
  "stages cls (a @ b) = stages cls a @ stages cls b"
  "stages cls (if c then a else b) = (if c then stages cls a else stages cls b)"
  by (simp_all add: stages_def List.map_filter_def split: option.splits)

lemma sorted_const: "list_all (\<lambda>k. k = c) xs \<Longrightarrow> sorted (xs :: nat list)"
  by (induction xs) (auto simp: list_all_iff)

lemma str_nat_Cons: "\<exists>c cs. str_nat n = c # cs \<and> c \<in> set ''0123456789''"
proof (induction n rule: str_nat.induct)
  case (1 n)
  show ?case
  proof (cases "n < 10")
    case True
    have "digit n \<in> set ''0123456789''"
      unfolding digit_def by (rule nth_mem) simp
    with True show ?thesis
      by (subst str_nat.simps) simp
  next
    case False
    with 1 obtain c cs where "str_nat (n div 10) = c # cs" "c \<in> set ''0123456789''"
      by blast
    with False show ?thesis
      by (subst str_nat.simps) simp
  qed
qed

lemma not_prefix_str_nat:
  "c \<notin> set ''0123456789'' \<Longrightarrow> \<not> prefix (c # p) (str_nat n @ r)"
  using str_nat_Cons [of n] by auto

lemma RULE60_Cons: "RULE60 = CHR ''='' # replicate 59 (CHR ''='')"
  by (simp add: RULE60_def numeral_eq_Suc)

lemmas class_simps =
  stages_simps is_count_def is_will_export_def is_size_def startswith_prefix not_prefix_str_nat
  NL_def CHECK_def CROSS_def WARNING_def BULLET_def CHART_def ARROW_def REFRESH_def RULE60_Cons

lemma stage_env_load:
  "open_mainfile_result h = None \<Longrightarrow>
     stages [is_load, is_count, is_toggle, is_will_export, is_export, is_size]
       (fst (env_load h)) = [0]"
  by (simp add: env_load_def io_simps class_simps del: block.simps)

lemma stage_env_verify:
  "stages [is_load, is_count, is_toggle, is_will_export, is_export, is_size]
     (fst (env_verify h)) = [1, 1, 1]"
  by (simp add: env_verify_def io_simps class_simps del: block.simps)

lemma stage_hide_working_env:
  "list_all (\<lambda>k. k = 2)
     (stages [is_load, is_count, is_toggle, is_will_export, is_export, is_size]
        (fst (hide_working_env U cs)))"
  by (induction cs) (simp_all add: class_simps case_prod_beta)

lemma stage_env_prepare:
  "stages [is_load, is_count, is_toggle, is_will_export, is_export, is_size]
     (fst (env_prepare h)) =
   stages [is_load, is_count, is_toggle, is_will_export, is_export, is_size]
     (fst (hide_working_env (unicode_upper h) (data_collections h))) @ [3]"
  by (simp add: env_prepare_def io_simps class_simps case_prod_beta del: block.simps)

lemma stage_env_export:
  "export_result h = None \<Longrightarrow>
     stages [is_load, is_count, is_toggle, is_will_export, is_export, is_size]
       (fst (env_export h)) = [4]"
  by (simp add: env_export_def io_simps class_simps del: block.simps)

lemma stage_env_summary:
  "snd (env_summary h) = Inr () \<Longrightarrow>
     stages [is_load, is_count, is_toggle, is_will_export, is_export, is_size]
       (fst (env_summary h)) = [5, 5]"
  by (auto simp: env_summary_def io_simps class_simps split: sum.splits fault.splits)

lemma exit0_env_parts:
  assumes "snd (main_export_env h) = Exit 0"
  shows "open_mainfile_result h = None" "export_result h = None" "snd (env_summary h) = Inr ()"
  using assms
  by (auto simp: main_export_env_def snd_finish snd_export_environment snd_env_summary
        truediv_MB_cases status_raised raised_not_exit
        split: option.splits fault.splits sum.splits exc.splits if_splits)

lemma stages_env:
  assumes "snd (main_export_env h) = Exit 0"
  shows "stages [is_load, is_count, is_toggle, is_will_export, is_export, is_size]
           (fst (main_export_env h)) =
         [0, 1, 1, 1] @
         stages [is_load, is_count, is_toggle, is_will_export, is_export, is_size]
           (fst (env_prepare h)) @
         [4, 5, 5]"
  using exit0_env_parts [OF assms]
  by (simp add: trace_env_loaded stages_simps stage_env_load stage_env_verify stage_env_export
        stage_env_summary)

lemma sorted_blocks:
  assumes "list_all (\<lambda>k. k = c) xs" "list_all (\<lambda>k. k \<le> c) pre" "sorted pre"
    "list_all (\<lambda>k. c \<le> k) post" "sorted post"
  shows "sorted (pre @ xs @ (post :: nat list))"
  using assms sorted_const [OF assms(1)]
  by (fastforce simp: sorted_append list_all_iff)

lemma order_env:
  assumes "snd (main_export_env h) = Exit 0"
  shows "in_order [is_load, is_count, is_toggle, is_will_export, is_export, is_size]
           (fst (main_export_env h))"
    "{0, 1, 3, 4, 5} \<subseteq>
       set (stages [is_load, is_count, is_toggle, is_will_export, is_export, is_size]
              (fst (main_export_env h)))"
proof -
  let ?cls = "[is_load, is_count, is_toggle, is_will_export, is_export, is_size]"
  let ?T = "stages ?cls (fst (hide_working_env (unicode_upper h) (data_collections h)))"
  have eq: "stages ?cls (fst (main_export_env h)) = [0, 1, 1, 1] @ ?T @ [3, 4, 5, 5]"
    by (simp only: stages_env [OF assms] stage_env_prepare append_assoc append.simps)
  have "sorted ([0, 1, 1, 1] @ ?T @ [3, 4, 5, 5])"
    by (rule sorted_blocks [OF stage_hide_working_env]) simp_all
  then show "in_order ?cls (fst (main_export_env h))"
    by (simp only: in_order_def eq)
  show "{0, 1, 3, 4, 5} \<subseteq> set (stages ?cls (fst (main_export_env h)))"
    unfolding eq by simp
qed

subsection \<open>export\_char.py\<close>

lemma stage_char_load:
  "open_mainfile_result h = None \<Longrightarrow>
     stages [is_load, is_count, is_export, is_size] (fst (char_load h)) = [0]"
  by (simp add: char_load_def io_simps class_simps del: block.simps)

lemma stages_map_Print:
  "list_all (\<lambda>x. stage_of cls (Print (f x)) = None) xs \<Longrightarrow> stages cls (map (Print \<circ> f) xs) = []"
  by (induction xs) (simp_all add: stages_simps)

lemma stage_char_verify:
  "stages [is_load, is_count, is_export, is_size] (fst (char_verify h)) = [1, 1, 1]"
  by (simp add: char_verify_def io_simps class_simps stages_map_Print list_all_iff
        del: block.simps)

lemma stage_char_export:
  "export_result h = None \<Longrightarrow>
     stages [is_load, is_count, is_export, is_size] (fst (char_export h)) = [2]"
  by (simp add: char_export_def io_simps class_simps del: block.simps)

lemma stage_char_summary:
  "snd (char_summary h) = Inr () \<Longrightarrow>
     stages [is_load, is_count, is_export, is_size] (fst (char_summary h)) = [3, 3]"
  by (auto simp: char_summary_def io_simps class_simps split: sum.splits fault.splits)

lemma toggles_char: "filter is_toggle (fst (main_export_char h)) = []"
proof -
  have "filter is_toggle (fst (char_load h)) = []" "filter is_toggle (fst (char_verify h)) = []"
    "filter is_toggle (fst (char_export h)) = []" "filter is_toggle (fst (char_summary h)) = []"
    by (auto simp: char_load_def char_verify_def char_export_def char_summary_def io_simps
          o_def simp del: block.simps split: option.splits fault.splits sum.splits)
  then show ?thesis
    by (auto simp: main_export_char_def fst_guarded_main export_character_def fst_block_Cons
          block_single simp del: block.simps split: sum.splits exc.splits)
qed

lemma exit0_char_parts:
  assumes "snd (main_export_char h) = Exit 0"
  shows "open_mainfile_result h = None" "char_skinned_meshes h \<noteq> []"
    "export_result h = None" "snd (char_summary h) = Inr ()"
  using assms exit0_char [OF assms]
  by (auto simp: main_export_char_def snd_guarded_main snd_export_character snd_char_summary
        truediv_MB_cases status_raised raised_not_exit
        split: option.splits fault.splits sum.splits exc.splits if_splits)

lemma stages_char:
  assumes "snd (main_export_char h) = Exit 0"
  shows "stages [is_load, is_count, is_export, is_size] (fst (main_export_char h)) =
           [0, 1, 1, 1, 2, 3, 3]"
proof -
  note parts = exit0_char_parts [OF assms]
  have "snd (export_character h) = Inr ()"
    using parts by (simp add: snd_export_character)
  then have "fst (main_export_char h) = fst (export_character h)"
    by (simp add: main_export_char_def fst_guarded_main)
  then show ?thesis
    using parts
    by (simp add: trace_char_loaded stages_simps stage_char_load stage_char_verify
          stage_char_export stage_char_summary)
qed


subsection \<open>export\_rt\_scene.py\<close>

lemma fst_block_step:
  "fst (block (s # ss)) = fst s @ (case snd s of Inl e \<Rightarrow> [] | Inr x \<Rightarrow> fst (block ss))"
  by (simp add: fst_bind)

lemma stage_rt_load:
  "read_homefile_result h = None \<Longrightarrow> path_exists h RT_SCENE_FILE \<Longrightarrow>
   open_mainfile_result h = None \<Longrightarrow>
     stages [is_load, is_toggle, is_count, is_will_export, is_export, is_size]
       (fst (rt_load h)) = [0]"
  by (simp add: rt_load_def io_simps class_simps del: block.simps)

lemma stage_hide_working_rt:
  "list_all (\<lambda>k. k = 1)
     (stages [is_load, is_toggle, is_count, is_will_export, is_export, is_size]
        (fst (hide_working_rt cs)))"
  by (induction cs) (simp_all add: class_simps case_prod_beta)

lemma stage_rt_hide_working:
  "stages [is_load, is_toggle, is_count, is_will_export, is_export, is_size]
     (fst (rt_hide_working h)) =
   stages [is_load, is_toggle, is_count, is_will_export, is_export, is_size]
     (fst (hide_working_rt (data_collections h)))"
  by (simp add: rt_hide_working_def io_simps class_simps case_prod_beta del: block.simps)

lemma stage_print_linked:
  "stages [is_load, is_toggle, is_count, is_will_export, is_export, is_size]
     (fst (block (map print_linked_object xs))) = []"
proof (induction xs)
  case Nil
  then show ?case by (simp add: ret_def stages_simps)
next
  case (Cons x xs)
  then show ?case
    by (simp add: fst_block_step print_linked_object_def io_basic class_simps
          del: block.simps split: option.splits sum.splits)
qed

lemma stage_rt_linked_data:
  "stages [is_load, is_toggle, is_count, is_will_export, is_export, is_size]
     (fst (rt_linked_data h)) =
   (if rt_linked_objects h \<noteq> [] then [2, 2, 2, 2, 2] else [])"
  using block_print_linked [OF rt_linked_take [of 5 h]]
  by (simp add: rt_linked_data_def io_simps class_simps
        stage_print_linked [unfolded is_count_def is_will_export_def] Let_def
        del: block.simps)

lemma stage_remove_orphaned:
  "stages [is_load, is_toggle, is_count, is_will_export, is_export, is_size]
     (fst (remove_orphaned names kept rest)) = []"
  by (induction rest arbitrary: kept) (simp_all add: class_simps Let_def case_prod_beta)

lemma stage_rt_remove_duplicates:
  "stages [is_load, is_toggle, is_count, is_will_export, is_export, is_size]
     (fst (rt_remove_duplicates h)) = []"
  by (simp add: rt_remove_duplicates_def io_simps class_simps
        stage_remove_orphaned [unfolded is_count_def is_will_export_def] Let_def
        case_prod_beta del: block.simps)

lemma stage_print_skinned:
  "stages [is_load, is_toggle, is_count, is_will_export, is_export, is_size]
     (fst (block (map (print_skinned_mesh ns) xs))) = []"
proof (induction xs)
  case Nil
  then show ?case by (simp add: ret_def stages_simps)
next
  case (Cons x xs)
  then show ?case
    by (simp add: fst_block_step print_skinned_mesh_def io_basic class_simps Let_def
          case_prod_beta del: block.simps split: sum.splits)
qed

lemma stage_rt_verify:
  "stages [is_load, is_toggle, is_count, is_will_export, is_export, is_size]
     (fst (rt_verify h)) = [2, 2, 2, 2, 2]"
  using block_print_skinned [of "scene_objects h"
      "zip [0 ..< length (rt_skinned_meshes h)] (rt_skinned_meshes h)"]
  by (simp add: rt_verify_def io_simps class_simps
        stage_print_skinned [unfolded is_count_def is_will_export_def] stages_map_Print
        list_all_iff del: block.simps)

lemma stage_hide_linked_duplicates:
  "stages [is_load, is_toggle, is_count, is_will_export, is_export, is_size]
     (fst (hide_linked_duplicates ov objs)) = []"
  by (induction objs) (simp_all add: class_simps case_prod_beta)

lemma stage_rt_prepare:
  "snd (rt_prepare h) = Inr () \<Longrightarrow>
     stages [is_load, is_toggle, is_count, is_will_export, is_export, is_size]
       (fst (rt_prepare h)) = [3]"
  by (auto simp: rt_prepare_def rt_hide_linked_def io_simps class_simps
        stage_hide_linked_duplicates [unfolded is_count_def is_will_export_def] Let_def
        case_prod_beta
        simp del: block.simps split: option.splits fault.splits if_splits)

lemma stage_rt_export:
  "export_result h = None \<Longrightarrow>
     stages [is_load, is_toggle, is_count, is_will_export, is_export, is_size]
       (fst (rt_export h)) = [4]"
  by (simp add: rt_export_def io_simps class_simps del: block.simps)

lemma stage_rt_summary:
  "snd (rt_summary h) = Inr () \<Longrightarrow>
     stages [is_load, is_toggle, is_count, is_will_export, is_export, is_size]
       (fst (rt_summary h)) = [5, 5]"
  by (auto simp: rt_summary_def io_simps class_simps Let_def split: sum.splits fault.splits)

lemma exit0_rt_parts:
  assumes "snd (main_export_rt_scene h) = Exit 0"
  shows "read_homefile_result h = None" "path_exists h RT_SCENE_FILE"
    "open_mainfile_result h = None" "snd (rt_prepare h) = Inr ()"
    "export_result h = None" "snd (rt_summary h) = Inr ()"
  using assms exit0_rt [OF assms]
  by (auto simp: main_export_rt_scene_def snd_guarded_main snd_export_rt_scene snd_rt_summary
        truediv_MB_cases status_raised raised_not_exit
        split: option.splits fault.splits sum.splits exc.splits if_splits)

lemma trace_rt_exit0:
  assumes "snd (main_export_rt_scene h) = Exit 0"
  shows "fst (main_export_rt_scene h) =
           fst (rt_load h) @ fst (rt_hide_working h) @ fst (rt_linked_data h) @
           fst (rt_remove_duplicates h) @ fst (rt_verify h) @ fst (rt_prepare h) @
           fst (rt_export h) @ fst (rt_summary h)"
proof -
  note parts = exit0_rt_parts [OF assms]
  have "snd (export_rt_scene h) = Inr ()"
    using parts by (simp add: snd_export_rt_scene)
  then have "fst (main_export_rt_scene h) = fst (export_rt_scene h)"
    by (simp add: main_export_rt_scene_def fst_guarded_main)
  then show ?thesis
    using parts by (simp add: trace_rt_loaded)
qed

lemma stages_rt:
  assumes "snd (main_export_rt_scene h) = Exit 0"
  shows "stages [is_load, is_toggle, is_count, is_will_export, is_export, is_size]
           (fst (main_export_rt_scene h)) =
         [0] @
         stages [is_load, is_toggle, is_count, is_will_export, is_export, is_size]
           (fst (hide_working_rt (data_collections h))) @
         (if rt_linked_objects h \<noteq> [] then [2, 2, 2, 2, 2] else []) @
         [2, 2, 2, 2, 2, 3, 4, 5, 5]"
  using exit0_rt_parts [OF assms]
  by (simp add: trace_rt_exit0 [OF assms] stages_simps stage_rt_load stage_rt_hide_working
        stage_rt_linked_data stage_rt_remove_duplicates stage_rt_verify stage_rt_prepare
        stage_rt_export stage_rt_summary)

lemma order_rt:
  assumes "snd (main_export_rt_scene h) = Exit 0"
  shows "in_order [is_load, is_toggle, is_count, is_will_export, is_export, is_size]
           (fst (main_export_rt_scene h))"
    "{0, 2, 3, 4, 5} \<subseteq>
       set (stages [is_load, is_toggle, is_count, is_will_export, is_export, is_size]
              (fst (main_export_rt_scene h)))"
proof -
  let ?cls = "[is_load, is_toggle, is_count, is_will_export, is_export, is_size]"
  let ?T = "stages ?cls (fst (hide_working_rt (data_collections h)))"
  let ?L = "(if rt_linked_objects h \<noteq> [] then [2, 2, 2, 2, 2] else []) @
            [2, 2, 2, 2, 2, 3, 4, 5, 5 :: nat]"
  have eq: "stages ?cls (fst (main_export_rt_scene h)) = [0] @ ?T @ ?L"
    by (simp only: stages_rt [OF assms])
  have "sorted ([0] @ ?T @ ?L)"
    by (rule sorted_blocks [OF stage_hide_working_rt]) simp_all
  then show "in_order ?cls (fst (main_export_rt_scene h))"
    by (simp only: in_order_def eq)
  show "{0, 2, 3, 4, 5} \<subseteq> set (stages ?cls (fst (main_export_rt_scene h)))"
    unfolding eq by simp
qed


lemma order_char:
  assumes "snd (main_export_char h) = Exit 0"
  shows "in_order [is_load, is_count, is_export, is_size] (fst (main_export_char h))"
    "{0, 1, 2, 3} \<subseteq>
       set (stages [is_load, is_count, is_export, is_size] (fst (main_export_char h)))"
  by (simp_all add: in_order_def stages_char [OF assms])

lemma stage_member:
  "e \<in> set t \<Longrightarrow> stage_of cls e = Some k \<Longrightarrow> k \<in> set (stages cls t)"
  by (induction t) (auto simp: stages_simps split: option.splits)

lemma not_in_order:
  assumes "e1 \<in> set a" "e2 \<in> set b" "stage_of cls e1 = Some k1" "stage_of cls e2 = Some k2"
    "k2 < k1"
  shows "\<not> in_order cls (pre @ a @ mid @ b @ post)"
proof
  assume "in_order cls (pre @ a @ mid @ b @ post)"
  then have "sorted (stages cls a @ stages cls mid @ stages cls b @ stages cls post)"
    by (simp add: in_order_def stages_simps sorted_append)
  moreover have "k1 \<in> set (stages cls a)" "k2 \<in> set (stages cls b)"
    using assms by (auto intro: stage_member)
  ultimately have "k1 \<le> k2"
    by (auto simp: sorted_append)
  with assms(5) show False by simp
qed

lemma ex_host_exit0:
  "snd (main_export_env ex_host) = Exit 0"
  "snd (main_export_rt_scene ex_host) = Exit 0"
  "snd (main_export_char ex_host) = Exit 0"
  by (simp_all add: main_export_env_def snd_finish snd_export_environment snd_env_summary
        main_export_rt_scene_def snd_guarded_main snd_export_rt_scene snd_rt_prepare
        snd_rt_summary main_export_char_def snd_export_character snd_char_summary
        ex_host_simps truediv_MB_small char_skinned_meshes_empty)
     (simp add: ex_host_def ex_obj_def)

text \<open>
  C5, as amended. A run that ends with status 0 performs its steps in this order. In
  \<open>export_env.py\<close>: the file load, the counts of the verification, the collection
  toggles, the \<open>Will export\<close> count, the export call, the file-size readout. In
  \<open>export_rt_scene.py\<close>: the file load, the collection toggles, the counts of the linked
  data and of the verification, the \<open>Will export\<close> count, the export call, the file-size
  readout. In \<open>export_char.py\<close>: the file load, the counts of the verification, the
  export call, the file-size readout; that script toggles no collection. Each of these
  steps other than the toggles occurs in such a run.
\<close>

theorem steps_in_order:
  "(snd (main_export_env h) = Exit 0 \<longrightarrow>
      in_order [is_load, is_count, is_toggle, is_will_export, is_export, is_size]
        (fst (main_export_env h)) \<and>
      {0, 1, 3, 4, 5} \<subseteq>
        set (stages [is_load, is_count, is_toggle, is_will_export, is_export, is_size]
               (fst (main_export_env h))))
   \<and> (snd (main_export_rt_scene h) = Exit 0 \<longrightarrow>
      in_order [is_load, is_toggle, is_count, is_will_export, is_export, is_size]
        (fst (main_export_rt_scene h)) \<and>
      {0, 2, 3, 4, 5} \<subseteq>
        set (stages [is_load, is_toggle, is_count, is_will_export, is_export, is_size]
               (fst (main_export_rt_scene h))))
   \<and> (snd (main_export_char h) = Exit 0 \<longrightarrow>
      in_order [is_load, is_count, is_export, is_size] (fst (main_export_char h)) \<and>
      {0, 1, 2, 3} \<subseteq>
        set (stages [is_load, is_count, is_export, is_size] (fst (main_export_char h))))
   \<and> filter is_toggle (fst (main_export_char h)) = []"
  using order_env [of h] order_rt [of h] order_char [of h] toggles_char [of h]
  by blast

theorem steps_in_order_witness:
  "snd (main_export_env ex_host) = Exit 0
   \<and> snd (main_export_rt_scene ex_host) = Exit 0
   \<and> snd (main_export_char ex_host) = Exit 0
   \<and> in_order [is_load, is_count, is_toggle, is_will_export, is_export, is_size]
        (fst (main_export_env ex_host))
   \<and> in_order [is_load, is_toggle, is_count, is_will_export, is_export, is_size]
        (fst (main_export_rt_scene ex_host))
   \<and> in_order [is_load, is_count, is_export, is_size] (fst (main_export_char ex_host))
   \<and> stages [is_load, is_count, is_toggle, is_will_export, is_export, is_size]
        (fst (main_export_env ex_host)) = [0, 1, 1, 1, 2, 2, 3, 4, 5, 5]
   \<and> stages [is_load, is_toggle, is_count, is_will_export, is_export, is_size]
        (fst (main_export_rt_scene ex_host)) = [0, 1, 1, 2, 2, 2, 2, 2, 3, 4, 5, 5]
   \<and> stages [is_load, is_count, is_export, is_size]
        (fst (main_export_char ex_host)) = [0, 1, 1, 1, 2, 3, 3]"
proof -
  have colls: "data_collections ex_host =
      [ex_collection ''EXPORT'' [''Body'', ''Desk'', ''Rig'', ''Sun'', ''Cam''],
       ex_collection ''Working'' [''Desk.001'']]"
    and upper: "unicode_upper ex_host = (\<lambda>s. s)"
    and objs: "data_objects ex_host =
      [ex_obj ''Body'' ''MESH'' [Modifier ''ARMATURE''], ex_obj ''Desk'' ''MESH'' [],
       ex_obj ''Desk.001'' ''MESH'' [], ex_obj ''Rig'' ''ARMATURE'' [],
       ex_obj ''Sun'' ''LIGHT'' [], ex_obj ''Cam'' ''CAMERA'' []]"
    by (simp_all add: ex_host_def)
  have "stages [is_load, is_count, is_toggle, is_will_export, is_export, is_size]
      (fst (hide_working_env (unicode_upper ex_host) (data_collections ex_host))) = [2, 2]"
    by (simp add: colls upper ex_collection_def class_simps startswith_def is_ascii_def
          ascii_upper_def)
  then have env: "stages [is_load, is_count, is_toggle, is_will_export, is_export, is_size]
        (fst (main_export_env ex_host)) = [0, 1, 1, 1, 2, 2, 3, 4, 5, 5]"
    by (simp add: stages_env [OF ex_host_exit0(1)] stage_env_prepare)
  have "stages [is_load, is_toggle, is_count, is_will_export, is_export, is_size]
      (fst (hide_working_rt (data_collections ex_host))) = [1, 1]"
    by (simp add: colls ex_collection_def class_simps startswith_def)
  moreover have "rt_linked_objects ex_host = []"
    by (simp add: rt_linked_objects_def objs ex_obj_def)
  ultimately have rt: "stages [is_load, is_toggle, is_count, is_will_export, is_export, is_size]
        (fst (main_export_rt_scene ex_host)) = [0, 1, 1, 2, 2, 2, 2, 2, 3, 4, 5, 5]"
    by (simp add: stages_rt [OF ex_host_exit0(2)])
  show ?thesis
    using steps_in_order [of ex_host] ex_host_exit0 env rt stages_char [OF ex_host_exit0(3)]
    by (simp only: simp_thms)
qed

text \<open>
  C5 as stated fails in \<open>export_rt_scene.py\<close>: on a file with a \<open>Working\<close> collection
  the run ends with status 0, and its collection toggles come before its counts.
\<close>

theorem steps_in_order_counterexample:
  "snd (main_export_rt_scene ex_host) = Exit 0
   \<and> \<not> in_order [is_load, is_count, is_toggle, is_export, is_size]
         (fst (main_export_rt_scene ex_host))"
proof -
  let ?cls = "[is_load, is_count, is_toggle, is_export, is_size]"
  have colls: "data_collections ex_host =
      [ex_collection ''EXPORT'' [''Body'', ''Desk'', ''Rig'', ''Sun'', ''Cam''],
       ex_collection ''Working'' [''Desk.001'']]"
    by (simp add: ex_host_def)
  have toggle: "SetCollectionHideViewport ''Working'' \<in> set (fst (rt_hide_working ex_host))"
    by (simp add: rt_hide_working_def colls ex_collection_def io_simps case_prod_beta
          startswith_def del: block.simps)
  have count: "Print (''   - SkinnedMeshes (character): '' @
        str_nat (length (rt_skinned_meshes ex_host))) \<in> set (fst (rt_verify ex_host))"
    by (simp add: rt_verify_def io_simps del: block.simps)
  have k1: "stage_of ?cls (SetCollectionHideViewport ''Working'') = Some 2"
    by (simp add: class_simps)
  have k2: "stage_of ?cls (Print (''   - SkinnedMeshes (character): '' @
        str_nat (length (rt_skinned_meshes ex_host)))) = Some 1"
    by (simp add: class_simps)
  have "\<not> in_order ?cls
      (fst (rt_load ex_host) @ fst (rt_hide_working ex_host) @
       (fst (rt_linked_data ex_host) @ fst (rt_remove_duplicates ex_host)) @
       fst (rt_verify ex_host) @
       (fst (rt_prepare ex_host) @ fst (rt_export ex_host) @ fst (rt_summary ex_host)))"
    by (rule not_in_order [OF toggle count k1 k2]) simp
  then show ?thesis
    by (simp add: ex_host_exit0 trace_rt_exit0 [OF ex_host_exit0(2)])
qed

end
